theory Spec2Isabelle
  imports Complex_Main "HOL-Library.Word" "HOL-Library.AList"
begin

unbundle bit_operations_syntax

section \<open>Pipeline messages, port specifications and ports\<close>

text \<open>
  Source: \<^verbatim>\<open>src/core/pipeline/pipeline-portspec.js\<close> and
  \<^verbatim>\<open>src/core/pipeline/pipeline-port.js\<close>.
  JavaScript exceptions are values of the type \<open>js_error\<close>; a method that may throw
  returns \<open>js_error + 'a\<close>, with \<open>Inl\<close> for the exception.
\<close>

datatype js_error =
    IllegalArgumentError
  | IllegalOperationError
  | AbstractMethodError
  | NotSupportedError
  | AssertionError
  | ParseError
  | FileNotFoundError
  | ModuleNotFoundError
  | TypeError

text \<open>
  Modelled from the spec: \<^verbatim>\<open>pipeline-message.js\<close> is not among the sources. The spec
  gives the message as a tagged union over the closed tag set Nothing, Image, Keypoints,
  Vector, Matrix; \<open>hasType\<close> compares the tag and \<open>isEmpty\<close> is having the tag Nothing.
  The payload is left abstract (the type variable \<open>'p\<close>).
\<close>

datatype SpeedyPipelineMessageType =
  MsgNothing | MsgImage | MsgKeypoints | MsgVector | MsgMatrix

datatype 'p SpeedyPipelineMessage =
    SpeedyPipelineMessageWithNothing
  | SpeedyPipelineMessageWith SpeedyPipelineMessageType 'p

fun messageType :: "'p SpeedyPipelineMessage \<Rightarrow> SpeedyPipelineMessageType" where
  "messageType SpeedyPipelineMessageWithNothing = MsgNothing"
| "messageType (SpeedyPipelineMessageWith t p) = t"

definition hasType :: "'p SpeedyPipelineMessage \<Rightarrow> SpeedyPipelineMessageType \<Rightarrow> bool" where
  "hasType m t = (messageType m = t)"

definition isEmpty :: "'p SpeedyPipelineMessage \<Rightarrow> bool" where
  "isEmpty m = hasType m MsgNothing"

definition EMPTY_MESSAGE :: "'p SpeedyPipelineMessage" where
  "EMPTY_MESSAGE = SpeedyPipelineMessageWithNothing"

subsection \<open>SpeedyPipelinePortSpec\<close>

record 'p SpeedyPipelinePortSpec =
  expectedMessageType :: SpeedyPipelineMessageType
  isValidMessage :: "'p SpeedyPipelineMessage \<Rightarrow> bool"

definition always :: "'p SpeedyPipelineMessage \<Rightarrow> bool" where
  "always message = True"

text \<open>
  The constructor: a missing constraint (\<open>None\<close>) defaults to \<open>always\<close>, and the
  expected type must not be Nothing (\<^verbatim>\<open>Utils.assert\<close>).
\<close>

definition newPortSpec ::
  "SpeedyPipelineMessageType \<Rightarrow> ('p SpeedyPipelineMessage \<Rightarrow> bool) option
     \<Rightarrow> js_error + 'p SpeedyPipelinePortSpec" where
  "newPortSpec t messageConstraint =
     (let s = \<lparr> expectedMessageType = t,
                 isValidMessage = (case messageConstraint of Some f \<Rightarrow> f | None \<Rightarrow> always) \<rparr>
      in if expectedMessageType s \<noteq> MsgNothing then Inr s else Inl AssertionError)"

definition isCompatibleWith ::
  "'p SpeedyPipelinePortSpec \<Rightarrow> 'p SpeedyPipelinePortSpec \<Rightarrow> bool" where
  "isCompatibleWith this spec = (expectedMessageType this = expectedMessageType spec)"

definition accepts :: "'p SpeedyPipelinePortSpec \<Rightarrow> 'p SpeedyPipelineMessage \<Rightarrow> bool" where
  "accepts this message =
     (hasType message (expectedMessageType this) \<and> isValidMessage this message)"

subsection \<open>SpeedyPipelinePort, SpeedyPipelineOutputPort, SpeedyPipelineInputPort\<close>

text \<open>
  Ports are objects with identity: an input port holds a reference to the output port it is
  linked to and reads that port's message through the reference. A reference is a number
  and the objects live in a store. The fields of the base class are the record
  \<open>SpeedyPipelinePort\<close>; the two subclasses are the constructors of \<open>port_object\<close>,
  each with its own extra field. The owning node only appears in error texts and is kept
  as its name.
\<close>

type_synonym port_ref = nat

record 'p SpeedyPipelinePort =
  portName :: string
  portSpec :: "'p SpeedyPipelinePortSpec"
  portNode :: string
  portMessage :: "'p SpeedyPipelineMessage"

datatype 'p port_object =
    SpeedyPipelineOutputPort "'p SpeedyPipelinePort" "'p SpeedyPipelineMessage option"
  | SpeedyPipelineInputPort "'p SpeedyPipelinePort" "port_ref option"

type_synonym 'p port_store = "port_ref \<Rightarrow> 'p port_object option"

fun portBase :: "'p port_object \<Rightarrow> 'p SpeedyPipelinePort" where
  "portBase (SpeedyPipelineOutputPort b c) = b"
| "portBase (SpeedyPipelineInputPort b l) = b"

fun setPortBase :: "'p port_object \<Rightarrow> 'p SpeedyPipelinePort \<Rightarrow> 'p port_object" where
  "setPortBase (SpeedyPipelineOutputPort b c) b' = SpeedyPipelineOutputPort b' c"
| "setPortBase (SpeedyPipelineInputPort b l) b' = SpeedyPipelineInputPort b' l"

fun isInputPort :: "'p port_object \<Rightarrow> bool" where
  "isInputPort (SpeedyPipelineOutputPort b c) = False"
| "isInputPort (SpeedyPipelineInputPort b l) = True"

definition isOutputPort :: "'p port_object \<Rightarrow> bool" where
  "isOutputPort p = (\<not> isInputPort p)"

fun incomingLink :: "'p port_object \<Rightarrow> port_ref option" where
  "incomingLink (SpeedyPipelineInputPort b l) = l"
| "incomingLink (SpeedyPipelineOutputPort b c) = None"

text \<open>\<^verbatim>\<open>ACCEPTABLE_PORT_NAME = /^[a-z][a-zA-Z0-9]*$/\<close>\<close>

definition charBetween :: "char \<Rightarrow> char \<Rightarrow> char \<Rightarrow> bool" where
  "charBetween lo hi c = ((of_char lo :: nat) \<le> of_char c \<and> (of_char c :: nat) \<le> of_char hi)"

definition isLowerChar :: "char \<Rightarrow> bool" where
  "isLowerChar c = charBetween CHR ''a'' CHR ''z'' c"

definition isUpperChar :: "char \<Rightarrow> bool" where
  "isUpperChar c = charBetween CHR ''A'' CHR ''Z'' c"

definition isDigitChar :: "char \<Rightarrow> bool" where
  "isDigitChar c = charBetween CHR ''0'' CHR ''9'' c"

fun ACCEPTABLE_PORT_NAME :: "string \<Rightarrow> bool" where
  "ACCEPTABLE_PORT_NAME [] = False"
| "ACCEPTABLE_PORT_NAME (c # cs) =
     (isLowerChar c \<and> list_all (\<lambda>d. isLowerChar d \<or> isUpperChar d \<or> isDigitChar d) cs)"

text \<open>The constructors. Every port starts with the empty message.\<close>

definition newPort ::
  "string \<Rightarrow> 'p SpeedyPipelinePortSpec \<Rightarrow> string \<Rightarrow> js_error + 'p SpeedyPipelinePort" where
  "newPort name spec node =
     (let this = \<lparr> portName = name, portSpec = spec, portNode = node,
                    portMessage = EMPTY_MESSAGE \<rparr>
      in if ACCEPTABLE_PORT_NAME (portName this) then Inr this else Inl AssertionError)"

definition newOutputPort ::
  "string \<Rightarrow> 'p SpeedyPipelinePortSpec \<Rightarrow> string \<Rightarrow> js_error + 'p port_object" where
  "newOutputPort name spec node =
     (case newPort name spec node of
        Inl e \<Rightarrow> Inl e
      | Inr b \<Rightarrow> Inr (SpeedyPipelineOutputPort b None))"

definition newInputPort ::
  "string \<Rightarrow> 'p SpeedyPipelinePortSpec \<Rightarrow> string \<Rightarrow> js_error + 'p port_object" where
  "newInputPort name spec node =
     (case newPort name spec node of
        Inl e \<Rightarrow> Inl e
      | Inr b \<Rightarrow> Inr (SpeedyPipelineInputPort b None))"

text \<open>Methods of the base class; they act on one port object.\<close>

definition clearMessage :: "'p port_object \<Rightarrow> 'p port_object" where
  "clearMessage p = setPortBase p ((portBase p)\<lparr> portMessage := EMPTY_MESSAGE \<rparr>)"

definition hasMessage :: "'p port_object \<Rightarrow> bool" where
  "hasMessage p = (\<not> isEmpty (portMessage (portBase p)))"

definition read :: "'p port_object \<Rightarrow> js_error + 'p SpeedyPipelineMessage" where
  "read p =
     (if isEmpty (portMessage (portBase p)) then Inl IllegalOperationError
      else Inr (portMessage (portBase p)))"

text \<open>
  A method that changes an object returns its outcome together with the object (or the
  store) as the call leaves it: an exception does not undo what was assigned before it
  was thrown, so the state after a throw is part of the model.
\<close>

text \<open>
  \<open>Port_write\<close> (the method \<^verbatim>\<open>write\<close>): the base class and the input port refuse
  every write; the output port checks its own specification and then stores the message.
\<close>

fun Port_write ::
  "'p port_object \<Rightarrow> 'p SpeedyPipelineMessage \<Rightarrow> (js_error + unit) \<times> 'p port_object" where
  "Port_write (SpeedyPipelineInputPort b l) message =
     (Inl NotSupportedError, SpeedyPipelineInputPort b l)"
| "Port_write (SpeedyPipelineOutputPort b c) message =
     (if \<not> accepts (portSpec b) message
      then (Inl IllegalArgumentError, SpeedyPipelineOutputPort b c)
      else (Inr (), SpeedyPipelineOutputPort (b\<lparr> portMessage := message \<rparr>) c))"

text \<open>
  Methods that follow references take the store. A reference that holds no object is the
  \<^verbatim>\<open>TypeError\<close> JavaScript raises on a property access through \<^verbatim>\<open>null\<close>.
\<close>

definition InputPort_connectTo ::
  "'p port_store \<Rightarrow> port_ref \<Rightarrow> port_ref \<Rightarrow> (js_error + unit) \<times> 'p port_store" where
  "InputPort_connectTo h this port =
     (case (h this, h port) of
        (Some (SpeedyPipelineInputPort b l), Some p) \<Rightarrow>
          if \<not> isOutputPort p then (Inl IllegalArgumentError, h)
          else if \<not> isCompatibleWith (portSpec b) (portSpec (portBase p))
            then (Inl IllegalArgumentError, h)
          else (Inr (), h(this \<mapsto> SpeedyPipelineInputPort b (Some port)))
      | _ \<Rightarrow> (Inl TypeError, h))"

definition OutputPort_connectTo ::
  "'p port_store \<Rightarrow> port_ref \<Rightarrow> port_ref \<Rightarrow> (js_error + unit) \<times> 'p port_store" where
  "OutputPort_connectTo h this port =
     (case (h this, h port) of
        (Some (SpeedyPipelineOutputPort b c), Some p) \<Rightarrow>
          if \<not> isInputPort p then (Inl IllegalArgumentError, h)
          else InputPort_connectTo h port this
      | _ \<Rightarrow> (Inl TypeError, h))"

definition disconnect :: "'p port_object \<Rightarrow> 'p port_object" where
  "disconnect p =
     (case p of SpeedyPipelineInputPort b l \<Rightarrow> SpeedyPipelineInputPort b None | _ \<Rightarrow> p)"

text \<open>
  \<open>pullMessage\<close>: the input port reads the linked output port, checks the message
  against its own specification and stores it.
\<close>

definition pullMessage ::
  "'p port_store \<Rightarrow> port_ref \<Rightarrow> (js_error + 'p SpeedyPipelineMessage) \<times> 'p port_store" where
  "pullMessage h this =
     (case h this of
        Some (SpeedyPipelineInputPort b l) \<Rightarrow>
          (case l of
             None \<Rightarrow> (Inl IllegalOperationError, h)
           | Some link \<Rightarrow>
               (case h link of
                  None \<Rightarrow> (Inl TypeError, h)
                | Some out \<Rightarrow>
                    (case read out of
                       Inl e \<Rightarrow> (Inl e, h)
                     | Inr message \<Rightarrow>
                         if \<not> accepts (portSpec b) message then (Inl IllegalArgumentError, h)
                         else (Inr message,
                           h(this \<mapsto> SpeedyPipelineInputPort (b\<lparr> portMessage := message \<rparr>) l)))))
      | _ \<Rightarrow> (Inl TypeError, h))"

text \<open>The write of an output port held in the store.\<close>

definition OutputPort_write ::
  "'p port_store \<Rightarrow> port_ref \<Rightarrow> 'p SpeedyPipelineMessage \<Rightarrow> (js_error + unit) \<times> 'p port_store" where
  "OutputPort_write h this message =
     (case h this of
        None \<Rightarrow> (Inl TypeError, h)
      | Some p \<Rightarrow> (case Port_write p message of (r, p') \<Rightarrow> (r, h(this \<mapsto> p'))))"

text \<open>The link and the message of the port a reference names, as the store has them.\<close>

definition linkOf :: "'p port_store \<Rightarrow> port_ref \<Rightarrow> port_ref option" where
  "linkOf h r = (case h r of Some p \<Rightarrow> incomingLink p | None \<Rightarrow> None)"

definition messageOf :: "'p port_store \<Rightarrow> port_ref \<Rightarrow> 'p SpeedyPipelineMessage option" where
  "messageOf h r = (case h r of Some p \<Rightarrow> Some (portMessage (portBase p)) | None \<Rightarrow> None)"

subsection \<open>Example ports\<close>

text \<open>
  Concrete specifications, ports and stores, with a number standing for the payload.
  \<open>smallImageSpec\<close> has a payload predicate; the other two accept every payload.
\<close>

definition imageSpec :: "nat SpeedyPipelinePortSpec" where
  "imageSpec = \<lparr> expectedMessageType = MsgImage, isValidMessage = always \<rparr>"

definition keypointsSpec :: "nat SpeedyPipelinePortSpec" where
  "keypointsSpec = \<lparr> expectedMessageType = MsgKeypoints, isValidMessage = always \<rparr>"

definition isSmallImage :: "nat SpeedyPipelineMessage \<Rightarrow> bool" where
  "isSmallImage m = (case m of SpeedyPipelineMessageWith t p \<Rightarrow> p < 10 | _ \<Rightarrow> False)"

definition smallImageSpec :: "nat SpeedyPipelinePortSpec" where
  "smallImageSpec = \<lparr> expectedMessageType = MsgImage, isValidMessage = isSmallImage \<rparr>"

definition examplePort :: "nat SpeedyPipelinePortSpec \<Rightarrow> nat SpeedyPipelinePort" where
  "examplePort s =
     \<lparr> portName = ''p'', portSpec = s, portNode = ''node'', portMessage = EMPTY_MESSAGE \<rparr>"

definition imagePortHolding7 :: "nat port_object" where
  "imagePortHolding7 =
     SpeedyPipelineOutputPort
       ((examplePort imageSpec)\<lparr> portMessage := SpeedyPipelineMessageWith MsgImage 7 \<rparr>) None"

text \<open>
  \<open>linkedStore\<close>: input port 0 (Image) is linked to output port 1 (Image); output port 2
  expects Keypoints. \<open>unlinkedStore\<close>: the same ports, none linked. \<open>strictStore\<close>: input port 0 expects a small Image and is linked to
  output port 1, which accepts every Image.
\<close>

definition linkedStore :: "nat port_store" where
  "linkedStore = [0 \<mapsto> SpeedyPipelineInputPort (examplePort imageSpec) (Some 1),
                  1 \<mapsto> SpeedyPipelineOutputPort (examplePort imageSpec) None,
                  2 \<mapsto> SpeedyPipelineOutputPort (examplePort keypointsSpec) None]"

definition unlinkedStore :: "nat port_store" where
  "unlinkedStore = [0 \<mapsto> SpeedyPipelineInputPort (examplePort imageSpec) None,
                    1 \<mapsto> SpeedyPipelineOutputPort (examplePort imageSpec) None,
                    2 \<mapsto> SpeedyPipelineOutputPort (examplePort keypointsSpec) None]"

definition strictStore :: "nat port_store" where
  "strictStore = [0 \<mapsto> SpeedyPipelineInputPort (examplePort smallImageSpec) (Some 1),
                  1 \<mapsto> SpeedyPipelineOutputPort (examplePort imageSpec) None]"

section \<open>Feature texture codec: decoding a keypoint header\<close>

text \<open>
  Source: \<^verbatim>\<open>keypoints.glsl\<close> (\<^verbatim>\<open>src/unnamed/part_003\<close>). An encoded keypoint texture has
  RGBA pixels of four bytes; the shader reads a pixel as four numbers in \<open>[0, 1]\<close>, each byte
  divided by 255. GLSL floats are modelled as reals: the decoder only compares these numbers
  with 0 and 1 and adds two of them, which is exact on the values \<open>b / 255\<close>. Addresses and
  the side of the texture are natural numbers (the shader computes them from non-negative
  thread coordinates).
\<close>

type_synonym byte = "8 word"

record rgba8 =
  red :: byte
  green :: byte
  blue :: byte
  alpha :: byte

type_synonym vec4 = "real \<times> real \<times> real \<times> real"

type_synonym sampler2D = "nat \<times> nat \<Rightarrow> rgba8"

definition normalized :: "byte \<Rightarrow> real" where
  "normalized b = real (unat b) / 255"

definition pixelAt :: "sampler2D \<Rightarrow> nat \<times> nat \<Rightarrow> vec4" where
  "pixelAt tex xy =
     (normalized (red (tex xy)), normalized (green (tex xy)),
      normalized (blue (tex xy)), normalized (alpha (tex xy)))"

record Keypoint =
  position :: "real \<times> real"
  lod :: real
  orientation :: real
  score :: real
  flags :: "32 word"

record KeypointAddress =
  base :: nat
  offset :: nat

text \<open>
  The functions of the include files \<^verbatim>\<open>fixed-point.glsl\<close>, \<^verbatim>\<open>pyramids.glsl\<close> and
  \<^verbatim>\<open>float16.glsl\<close>, which are not among the sources, are parameters of the decoder.
\<close>

record keypointIncludes =
  fixtovec2 :: "int \<times> int \<Rightarrow> real \<times> real"
  decodeLod :: "real \<Rightarrow> real"
  decodeFloat16 :: "real \<times> real \<Rightarrow> real"

definition KPF_NONE :: "32 word" where
  "KPF_NONE = 0"

definition KPF_NULL :: "32 word" where
  "KPF_NULL = 1"

definition KPF_DISCARDED :: "32 word" where
  "KPF_DISCARDED = 2"

definition decodeKeypointScore :: "keypointIncludes \<Rightarrow> real \<times> real \<Rightarrow> real" where
  "decodeKeypointScore inc encodedScore = decodeFloat16 inc encodedScore"

definition decodeKeypointOrientation :: "real \<Rightarrow> real" where
  "decodeKeypointOrientation v = v * (2 * pi) - pi"

definition encodeNullKeypoint :: vec4 where
  "encodeNullKeypoint = (1, 1, 1, 1)"

definition encodeDiscardedKeypoint :: vec4 where
  "encodeDiscardedKeypoint = (0, 0, 0, 0)"

definition isNullKeypoint :: "Keypoint \<Rightarrow> bool" where
  "isNullKeypoint keypoint = ((flags keypoint AND KPF_NULL) \<noteq> 0)"

definition isDiscardedKeypoint :: "Keypoint \<Rightarrow> bool" where
  "isDiscardedKeypoint keypoint = ((flags keypoint AND KPF_DISCARDED) \<noteq> 0)"

definition isBadKeypoint :: "Keypoint \<Rightarrow> bool" where
  "isBadKeypoint keypoint = (score keypoint < 0)"

definition readKeypointData :: "sampler2D \<Rightarrow> nat \<Rightarrow> KeypointAddress \<Rightarrow> vec4" where
  "readKeypointData encodedKeypoints encoderLength address =
     (let rasterIndex = base address + offset address;
          data = pixelAt encodedKeypoints
                   (rasterIndex mod encoderLength, rasterIndex div encoderLength)
      in if rasterIndex < encoderLength * encoderLength then data else encodeNullKeypoint)"

text \<open>The vector operations the decoder uses, componentwise.\<close>

definition ivec4 :: "vec4 \<Rightarrow> int \<times> int \<times> int \<times> int" where
  "ivec4 v = (case v of (x, y, z, w) \<Rightarrow> (\<lfloor>x\<rfloor>, \<lfloor>y\<rfloor>, \<lfloor>z\<rfloor>, \<lfloor>w\<rfloor>))"

definition scale4 :: "vec4 \<Rightarrow> real \<Rightarrow> vec4" where
  "scale4 v k = (case v of (x, y, z, w) \<Rightarrow> (x * k, y * k, z * k, w * k))"

definition add4 :: "vec4 \<Rightarrow> vec4 \<Rightarrow> vec4" where
  "add4 u v =
     (case (u, v) of ((x, y, z, w), (x', y', z', w')) \<Rightarrow> (x + x', y + y', z + z', w + w'))"

definition allEqual :: "vec4 \<Rightarrow> vec4 \<Rightarrow> bool" where
  "allEqual u v =
     (case (u, v) of ((x, y, z, w), (x', y', z', w')) \<Rightarrow>
        x = x' \<and> y = y' \<and> z = z' \<and> w = w')"

definition vec4of :: "real \<Rightarrow> vec4" where
  "vec4of x = (x, x, x, x)"

definition decodeKeypoint ::
  "keypointIncludes \<Rightarrow> sampler2D \<Rightarrow> nat \<Rightarrow> KeypointAddress \<Rightarrow> Keypoint" where
  "decodeKeypoint inc encodedKeypoints encoderLength address =
     (let positionAddress = \<lparr> base = base address, offset = 0 \<rparr>;
          propertiesAddress = \<lparr> base = base address, offset = 1 \<rparr>;
          rawEncodedPosition = readKeypointData encodedKeypoints encoderLength positionAddress;
          encodedPosition = ivec4 (scale4 rawEncodedPosition 255);
          decodedPosition = (case encodedPosition of (r, g, b, a) \<Rightarrow>
                               fixtovec2 inc (r OR push_bit 8 g, b OR push_bit 8 a));
          rawEncodedProperties =
            readKeypointData encodedKeypoints encoderLength propertiesAddress;
          isNull = allEqual rawEncodedPosition (vec4of 1);
          isDiscarded = allEqual (add4 rawEncodedPosition rawEncodedProperties) (vec4of 0)
      in (case rawEncodedProperties of (r, g, b, a) \<Rightarrow>
            \<lparr> position = decodedPosition,
              lod = decodeLod inc r,
              orientation = decodeKeypointOrientation g,
              score = (if isNull \<or> isDiscarded then - 1 else decodeKeypointScore inc (b, a)),
              flags = KPF_NONE OR (KPF_NULL * of_bool isNull)
                        OR (KPF_DISCARDED * of_bool isDiscarded) \<rparr>))"

text \<open>
  The bytes of one pixel of a record as the decoder gets them: the pixel of the texture at
  the raster index or, past the end of the texture, the pixel \<^verbatim>\<open>readKeypointData\<close> puts in
  its place.
\<close>

definition allBytes :: "byte \<Rightarrow> rgba8" where
  "allBytes b = \<lparr> red = b, green = b, blue = b, alpha = b \<rparr>"

definition recordPixel :: "sampler2D \<Rightarrow> nat \<Rightarrow> nat \<Rightarrow> rgba8" where
  "recordPixel encodedKeypoints encoderLength rasterIndex =
     (if rasterIndex < encoderLength * encoderLength
      then encodedKeypoints (rasterIndex mod encoderLength, rasterIndex div encoderLength)
      else allBytes 255)"

text \<open>
  An example: a texture of side 2 whose first record (pixels 0 and 1) has the position
  \<open>(3, 0)\<close> in fixed point and a score field, and whose second record (pixels 2 and 3) is all
  zeros. The missing include functions are replaced by stand-ins.
\<close>

definition exampleIncludes :: keypointIncludes where
  "exampleIncludes =
     \<lparr> fixtovec2 = (\<lambda>(x, y). (real_of_int x / 16, real_of_int y / 16)),
       decodeLod = (\<lambda>v. v),
       decodeFloat16 = (\<lambda>(lo, hi). lo + 256 * hi) \<rparr>"

definition exampleTexture :: sampler2D where
  "exampleTexture xy =
     (if xy = (0, 0) then \<lparr> red = 3, green = 0, blue = 0, alpha = 0 \<rparr>
      else if xy = (1, 0) then \<lparr> red = 0, green = 0, blue = 0, alpha = 255 \<rparr>
      else allBytes 0)"

section \<open>Asynchronous texture reader: polling the fence\<close>

text \<open>
  Source: \<^verbatim>\<open>SpeedyTextureReader._clientWaitAsync\<close> in \<^verbatim>\<open>speedy-texture-reader.js\<close>
  (\<^verbatim>\<open>src/unnamed/part_001\<close>). The routine polls the fence and, when it is neither signaled
  nor out of attempts, schedules itself again with \<^verbatim>\<open>setTimeout\<close>. The device is the
  environment: \<open>clientWaitSync k\<close> is the status the \<open>k\<close>-th call of \<^verbatim>\<open>gl.clientWaitSync\<close>
  returns and \<open>getError k\<close> is what \<^verbatim>\<open>GLUtils.getError(gl)\<close> returns at that moment. The
  model returns how the promise is settled and the list of the timeouts passed to
  \<^verbatim>\<open>setTimeout\<close>, one for each poll but the last; the waiting itself is not modelled.
  The poll interval and the number of attempts are integers.
\<close>

datatype GLenum = ALREADY_SIGNALED | TIMEOUT_EXPIRED | CONDITION_SATISFIED | WAIT_FAILED












section \<open>Regular expressions of JavaScript\<close>

text \<open>
  The shader preprocessor works by \<^verbatim>\<open>String.prototype.replace\<close> with regular expressions.
  The expressions are values of the datatype \<open>regex\<close>, written as the source writes them,
  and \<open>rmatch\<close> is the backtracking matcher of ECMAScript: it returns every way the
  expression matches at the current position, in the order a backtracking search tries
  them, so the head of the list is the match JavaScript reports. A position is the
  character before it (for \<^verbatim>\<open>^\<close> and \<^verbatim>\<open>\b\<close>), the rest of the input and the captures
  made so far (the latest first). Strings are lists of the 256 values of \<open>char\<close>, read as
  code units; the shaders are ASCII.
\<close>

definition isWordChar :: "char \<Rightarrow> bool" where
  "isWordChar c = (isLowerChar c \<or> isUpperChar c \<or> isDigitChar c \<or> c = CHR ''_'')"

definition isLineTerminator :: "char \<Rightarrow> bool" where
  "isLineTerminator c = (c = CHR 0x0A \<or> c = CHR 0x0D)"

definition isWhiteSpace :: "char \<Rightarrow> bool" where
  "isWhiteSpace c =
     (c = CHR 0x09 \<or> c = CHR 0x0A \<or> c = CHR 0x0B \<or> c = CHR 0x0C \<or> c = CHR 0x0D
      \<or> c = CHR 0x20 \<or> c = CHR 0xA0)"

text \<open>
  Character classes: \<^verbatim>\<open>[\s\S]\<close>, \<^verbatim>\<open>.\<close>, \<^verbatim>\<open>\s\<close>, \<^verbatim>\<open>\w\<close>, \<^verbatim>\<open>\d\<close> and a literal
  character.
\<close>

datatype charClass = AnyChar | Dot | Whitespace | Word | Digit | Literal char

fun inClass :: "charClass \<Rightarrow> char \<Rightarrow> bool" where
  "inClass AnyChar c = True"
| "inClass Dot c = (\<not> isLineTerminator c)"
| "inClass Whitespace c = isWhiteSpace c"
| "inClass Word c = isWordChar c"
| "inClass Digit c = isDigitChar c"
| "inClass (Literal d) c = (c = d)"

text \<open>
  \<open>Star\<close> is the greedy \<^verbatim>\<open>*\<close> and \<open>LazyStar\<close> is \<^verbatim>\<open>*?\<close>; \<open>Group k\<close> is the \<open>k\<close>-th
  capturing group and \<open>Backref k\<close> a reference to it; \<open>InputStart\<close> and \<open>InputEnd\<close> are
  \<^verbatim>\<open>^\<close> and \<^verbatim>\<open>$\<close> without the flag \<^verbatim>\<open>m\<close>, \<open>LineStart\<close> and \<open>LineEnd\<close> with it;
  \<open>WordBoundary\<close> is \<^verbatim>\<open>\b\<close>.
\<close>

datatype regex =
    Chr charClass
  | Epsilon
  | Then regex regex
  | Or regex regex
  | Star regex
  | LazyStar regex
  | Group nat regex
  | Backref nat
  | InputStart
  | InputEnd
  | LineStart
  | LineEnd
  | WordBoundary

type_synonym captures = "(nat \<times> string) list"

type_synonym mstate = "char option \<times> string \<times> captures"

fun consumed :: "string \<Rightarrow> string \<Rightarrow> string" where
  "consumed before after = take (length before - length after) before"

fun atLineStart :: "char option \<Rightarrow> bool" where
  "atLineStart None = True"
| "atLineStart (Some c) = isLineTerminator c"

fun atLineEnd :: "string \<Rightarrow> bool" where
  "atLineEnd [] = True"
| "atLineEnd (c # cs) = isLineTerminator c"

fun prevIsWord :: "char option \<Rightarrow> bool" where
  "prevIsWord None = False"
| "prevIsWord (Some c) = isWordChar c"

fun nextIsWord :: "string \<Rightarrow> bool" where
  "nextIsWord [] = False"
| "nextIsWord (c # cs) = isWordChar c"

fun stripPrefix :: "string \<Rightarrow> string \<Rightarrow> string option" where
  "stripPrefix [] s = Some s"
| "stripPrefix (c # cs) [] = None"
| "stripPrefix (c # cs) (d # ds) = (if c = d then stripPrefix cs ds else None)"

text \<open>
  A repetition stops an iteration that consumes nothing, as ECMAScript does. A group that
  has captured nothing is matched by its back reference as the empty string.
\<close>

function rmatch :: "regex \<Rightarrow> mstate \<Rightarrow> mstate list" where
  "rmatch (Chr cl) (p, [], caps) = []"
| "rmatch (Chr cl) (p, c # cs, caps) = (if inClass cl c then [(Some c, cs, caps)] else [])"
| "rmatch Epsilon s = [s]"
| "rmatch (Then a b) s = concat (map (rmatch b) (rmatch a s))"
| "rmatch (Or a b) s = rmatch a s @ rmatch b s"
| "rmatch (Star r) (p, inp, caps) =
     concat (map (rmatch (Star r))
       (filter (\<lambda>(p', inp', caps'). length inp' < length inp) (rmatch r (p, inp, caps))))
     @ [(p, inp, caps)]"
| "rmatch (LazyStar r) (p, inp, caps) =
     (p, inp, caps) #
     concat (map (rmatch (LazyStar r))
       (filter (\<lambda>(p', inp', caps'). length inp' < length inp) (rmatch r (p, inp, caps))))"
| "rmatch (Group k r) (p, inp, caps) =
     map (\<lambda>(p', inp', caps'). (p', inp', (k, consumed inp inp') # caps'))
         (rmatch r (p, inp, caps))"
| "rmatch (Backref k) (p, inp, caps) =
     (case map_of caps k of
        None \<Rightarrow> [(p, inp, caps)]
      | Some w \<Rightarrow>
          (case stripPrefix w inp of
             None \<Rightarrow> []
           | Some inp' \<Rightarrow> [(if w = [] then p else Some (last w), inp', caps)]))"
| "rmatch InputStart (p, inp, caps) = (if p = None then [(p, inp, caps)] else [])"
| "rmatch InputEnd (p, inp, caps) = (if inp = [] then [(p, inp, caps)] else [])"
| "rmatch LineStart (p, inp, caps) = (if atLineStart p then [(p, inp, caps)] else [])"
| "rmatch LineEnd (p, inp, caps) = (if atLineEnd inp then [(p, inp, caps)] else [])"
| "rmatch WordBoundary (p, inp, caps) =
     (if prevIsWord p \<noteq> nextIsWord inp then [(p, inp, caps)] else [])"
  by pat_completeness auto
termination
  by (relation "measures [\<lambda>(r, s). size r, \<lambda>(r, p, inp, caps). length inp]") auto

text \<open>Shorthands: a literal string, a sequence, \<^verbatim>\<open>+\<close>, \<^verbatim>\<open>+?\<close> and \<^verbatim>\<open>?\<close>.\<close>

fun lits :: "string \<Rightarrow> regex" where
  "lits [] = Epsilon"
| "lits [c] = Chr (Literal c)"
| "lits (c # cs) = Then (Chr (Literal c)) (lits cs)"

fun seqs :: "regex list \<Rightarrow> regex" where
  "seqs [] = Epsilon"
| "seqs [r] = r"
| "seqs (r # rs) = Then r (seqs rs)"

definition OneOrMore :: "regex \<Rightarrow> regex" where
  "OneOrMore r = Then r (Star r)"

definition LazyOneOrMore :: "regex \<Rightarrow> regex" where
  "LazyOneOrMore r = Then r (LazyStar r)"

definition Optional :: "regex \<Rightarrow> regex" where
  "Optional r = Or r Epsilon"

definition rfirst :: "regex \<Rightarrow> mstate \<Rightarrow> mstate option" where
  "rfirst r s = (case rmatch r s of [] \<Rightarrow> None | x # xs \<Rightarrow> Some x)"

text \<open>
  A global search (flag \<^verbatim>\<open>g\<close>) cuts the input into the characters no match covers and
  the matches, found from left to right, each starting where the one before ended; after
  an empty match the search moves on by one character.
\<close>

datatype segment = Plain char | Matched string captures

function segments :: "regex \<Rightarrow> char option \<Rightarrow> string \<Rightarrow> segment list" where
  "segments r p inp =
     (case rfirst r (p, inp, []) of
        Some (p', inp', caps) \<Rightarrow>
          if length inp' < length inp
          then Matched (consumed inp inp') caps # segments r p' inp'
          else Matched [] caps #
            (case inp of [] \<Rightarrow> [] | c # cs \<Rightarrow> Plain c # segments r (Some c) cs)
      | None \<Rightarrow> (case inp of [] \<Rightarrow> [] | c # cs \<Rightarrow> Plain c # segments r (Some c) cs))"
  by pat_completeness auto
termination
  by (relation "measure (\<lambda>(r, p, inp). length inp)") auto

declare segments.simps [simp del]

text \<open>\<open>regexFound r s\<close>: the expression matches somewhere in \<open>s\<close> (\<^verbatim>\<open>s.match(r) !== null\<close>).\<close>

fun regexFoundFrom :: "regex \<Rightarrow> char option \<Rightarrow> string \<Rightarrow> bool" where
  "regexFoundFrom r p [] = (rmatch r (p, [], []) \<noteq> [])"
| "regexFoundFrom r p (c # cs) =
     (rmatch r (p, c # cs, []) \<noteq> [] \<or> regexFoundFrom r (Some c) cs)"

definition regexFound :: "regex \<Rightarrow> string \<Rightarrow> bool" where
  "regexFound r s = regexFoundFrom r None s"

text \<open>
  The text of a capturing group. Every group of the expressions below takes part in every
  match, so the case \<open>None\<close> (JavaScript's \<^verbatim>\<open>undefined\<close>) does not arise.
\<close>

definition capture :: "captures \<Rightarrow> nat \<Rightarrow> string" where
  "capture caps k = (case map_of caps k of Some w \<Rightarrow> w | None \<Rightarrow> [])"

text \<open>
  A call either returns, throws, or does not come back. The recursion of the preprocessor
  on included files is bounded by fuel, and \<open>OutOfFuel\<close> stands for a call that needs more;
  \<open>Diverges\<close> stands for a call whose loop never ends.
\<close>

datatype 'a outcome = Returns 'a | Throws js_error | OutOfFuel | Diverges

fun andThen :: "'a outcome \<Rightarrow> ('a \<Rightarrow> 'b outcome) \<Rightarrow> 'b outcome" where
  "andThen (Returns x) f = f x"
| "andThen (Throws e) f = Throws e"
| "andThen OutOfFuel f = OutOfFuel"
| "andThen Diverges f = Diverges"

text \<open>
  \<^verbatim>\<open>String.prototype.replace\<close> with a global expression and a replacer function. The
  replacer gets the matched text and the captures, and it may throw; what it does to
  variables around it (the list of diagnostics) is the state \<open>'st\<close> passed along. The
  replacers are called in the order of the matches.
\<close>

fun replaceSegments ::
  "(string \<Rightarrow> captures \<Rightarrow> 'st \<Rightarrow> (string \<times> 'st) outcome) \<Rightarrow> segment list \<Rightarrow> 'st
     \<Rightarrow> (string \<times> 'st) outcome" where
  "replaceSegments f [] st = Returns ([], st)"
| "replaceSegments f (Plain c # segs) st =
     andThen (replaceSegments f segs st) (\<lambda>(rest, st'). Returns (c # rest, st'))"
| "replaceSegments f (Matched m caps # segs) st =
     andThen (f m caps st) (\<lambda>(rep, st').
       andThen (replaceSegments f segs st') (\<lambda>(rest, st''). Returns (rep @ rest, st'')))"

definition replace ::
  "regex \<Rightarrow> (string \<Rightarrow> captures \<Rightarrow> 'st \<Rightarrow> (string \<times> 'st) outcome) \<Rightarrow> string \<Rightarrow> 'st
     \<Rightarrow> (string \<times> 'st) outcome" where
  "replace r f s st = replaceSegments f (segments r None s) st"

section \<open>Numbers and strings of JavaScript\<close>

text \<open>
  The numbers the preprocessor handles are loop limits, steps and the values of constants.
  A number of JavaScript is a double. The model has the doubles that are integers, the two
  infinities and \<^verbatim>\<open>NaN\<close>; a constant that is not an integer is outside the model. The
  value of an entry of a table of constants is an integer.
\<close>

definition NL :: string where
  "NL = [CHR 0x0A]"

definition glslLines :: "string list \<Rightarrow> string" where
  "glslLines ls = concat (map (\<lambda>l. l @ NL) ls)"

fun join :: "string \<Rightarrow> string list \<Rightarrow> string" where
  "join sep [] = []"
| "join sep [x] = x"
| "join sep (x # xs) = x @ sep @ join sep xs"

text \<open>
  \<open>showInt\<close>: the digits of an integer, which is \<^verbatim>\<open>String(n)\<close> for an integer of magnitude
  up to \<open>2^53\<close>; \<open>showNumber\<close> below is \<^verbatim>\<open>String\<close> on every number of the model.
\<close>

definition digitChar :: "nat \<Rightarrow> char" where
  "digitChar d = ''0123456789'' ! d"

function showNat :: "nat \<Rightarrow> string" where
  "showNat n = (if n < 10 then [digitChar n] else showNat (n div 10) @ [digitChar (n mod 10)])"
  by pat_completeness auto
termination
  by (relation "measure id") auto

declare showNat.simps [simp del]

definition showInt :: "int \<Rightarrow> string" where
  "showInt i = (if i < 0 then CHR ''-'' # showNat (nat (- i)) else showNat (nat i))"

text \<open>Digits in a radix up to 36, and the longest prefix of a string made of them.\<close>

definition digitOf :: "nat \<Rightarrow> char \<Rightarrow> nat option" where
  "digitOf radix c =
     (let d = (if isDigitChar c then Some (of_char c - 48)
               else if isLowerChar c then Some (of_char c - 87)
               else if isUpperChar c then Some (of_char c - 55)
               else None)
      in case d of Some v \<Rightarrow> (if v < radix then Some v else None) | None \<Rightarrow> None)"

fun leadingDigits :: "nat \<Rightarrow> string \<Rightarrow> nat list" where
  "leadingDigits radix [] = []"
| "leadingDigits radix (c # cs) =
     (case digitOf radix c of Some d \<Rightarrow> d # leadingDigits radix cs | None \<Rightarrow> [])"

definition digitsValue :: "nat \<Rightarrow> nat list \<Rightarrow> nat" where
  "digitsValue radix ds = foldl (\<lambda>a d. a * radix + d) 0 ds"

text \<open>
  \<open>isFiniteNumber s\<close> is \<^verbatim>\<open>Number.isFinite(+s)\<close>: the string, without surrounding white
  space, is empty or a numeric literal (decimal with an optional sign, fraction and
  exponent, or hexadecimal, octal or binary), and its value does not round to an infinity
  of the double format. A value \<open>m * 10^e\<close> rounds to infinity from
  \<open>2^1024 - 2^970\<close> on.
\<close>

definition trim :: "string \<Rightarrow> string" where
  "trim s = rev (dropWhile isWhiteSpace (rev (dropWhile isWhiteSpace s)))"

definition belowInfinity :: "nat \<Rightarrow> int \<Rightarrow> bool" where
  "belowInfinity m e =
     (if 0 \<le> e then m * 10 ^ nat e < 2 ^ 1024 - 2 ^ 970
      else m < (2 ^ 1024 - 2 ^ 970) * 10 ^ nat (- e))"

definition nonDecimalFinite :: "nat \<Rightarrow> string \<Rightarrow> bool" where
  "nonDecimalFinite radix ds =
     (ds \<noteq> [] \<and> length (leadingDigits radix ds) = length ds
      \<and> belowInfinity (digitsValue radix (leadingDigits radix ds)) 0)"

definition exponentPart :: "string \<Rightarrow> int option" where
  "exponentPart s =
     (case s of
        [] \<Rightarrow> Some 0
      | e # r \<Rightarrow>
          if e = CHR ''e'' \<or> e = CHR ''E''
          then (let negative = (case r of c # cs \<Rightarrow> c = CHR ''-'' | [] \<Rightarrow> False);
                    ds = (case r of c # cs \<Rightarrow> if c = CHR ''-'' \<or> c = CHR ''+'' then cs else r
                                  | [] \<Rightarrow> r)
                in if ds \<noteq> [] \<and> length (leadingDigits 10 ds) = length ds
                   then Some ((if negative then - 1 else 1)
                              * int (digitsValue 10 (leadingDigits 10 ds)))
                   else None)
          else None)"

definition unsignedDecimalFinite :: "string \<Rightarrow> bool" where
  "unsignedDecimalFinite u =
     (if u = ''Infinity'' then False
      else let ip = leadingDigits 10 u;
               r1 = drop (length ip) u;
               dot = (case r1 of c # cs \<Rightarrow> c = CHR ''.'' | [] \<Rightarrow> False);
               fp = (if dot then leadingDigits 10 (drop 1 r1) else []);
               r2 = (if dot then drop (1 + length fp) r1 else r1)
           in if ip = [] \<and> fp = [] then False
              else (case exponentPart r2 of
                      None \<Rightarrow> False
                    | Some e \<Rightarrow> belowInfinity (digitsValue 10 (ip @ fp)) (e - int (length fp))))"

definition isFiniteNumber :: "string \<Rightarrow> bool" where
  "isFiniteNumber s =
     (case trim s of
        [] \<Rightarrow> True
      | [c] \<Rightarrow> unsignedDecimalFinite [c]
      | c # d # ds \<Rightarrow>
          if c = CHR ''0'' \<and> (d = CHR ''x'' \<or> d = CHR ''X'') then nonDecimalFinite 16 ds
          else if c = CHR ''0'' \<and> (d = CHR ''o'' \<or> d = CHR ''O'') then nonDecimalFinite 8 ds
          else if c = CHR ''0'' \<and> (d = CHR ''b'' \<or> d = CHR ''B'') then nonDecimalFinite 2 ds
          else if c = CHR ''-'' \<or> c = CHR ''+'' then unsignedDecimalFinite (d # ds)
          else unsignedDecimalFinite (c # d # ds))"

subsection \<open>Doubles that are integers\<close>

text \<open>
  A double has a significand of 53 bits, so every integer of magnitude up to \<open>2^53\<close> is a
  double, and a larger one is rounded to the nearest integer with 53 significant bits, to
  the even one of two that are equally near, and to an infinity from \<open>2^1024\<close> on.
\<close>

datatype js_number = NaN | Num int | PosInfinity | NegInfinity

fun bitLength :: "nat \<Rightarrow> nat" where
  "bitLength n = (if n = 0 then 0 else Suc (bitLength (n div 2)))"

declare bitLength.simps [simp del]

definition toDouble :: "int \<Rightarrow> js_number" where
  "toDouble n =
     (let m = nat \<bar>n\<bar>
      in if m \<le> 2 ^ 53 then Num n
         else let u = 2 ^ (bitLength m - 53);
                  q = m div u;
                  r = m mod u;
                  q' = (if 2 * r < u \<or> (2 * r = u \<and> even q) then q else q + 1);
                  v = q' * u
              in if 1024 < bitLength v then (if n < 0 then NegInfinity else PosInfinity)
                 else Num (if n < 0 then - int v else int v))"

text \<open>The operators \<^verbatim>\<open><\<close>, \<^verbatim>\<open><=\<close> and \<^verbatim>\<open>+\<close> on numbers.\<close>

fun jsLess :: "js_number \<Rightarrow> js_number \<Rightarrow> bool" where
  "jsLess (Num a) (Num b) = (a < b)"
| "jsLess (Num a) PosInfinity = True"
| "jsLess NegInfinity (Num b) = True"
| "jsLess NegInfinity PosInfinity = True"
| "jsLess x y = False"

fun jsLessEq :: "js_number \<Rightarrow> js_number \<Rightarrow> bool" where
  "jsLessEq (Num a) (Num b) = (a \<le> b)"
| "jsLessEq (Num a) PosInfinity = True"
| "jsLessEq NegInfinity (Num b) = True"
| "jsLessEq NegInfinity PosInfinity = True"
| "jsLessEq PosInfinity PosInfinity = True"
| "jsLessEq NegInfinity NegInfinity = True"
| "jsLessEq x y = False"

fun jsAdd :: "js_number \<Rightarrow> js_number \<Rightarrow> js_number" where
  "jsAdd (Num a) (Num b) = toDouble (a + b)"
| "jsAdd NaN y = NaN"
| "jsAdd x NaN = NaN"
| "jsAdd PosInfinity NegInfinity = NaN"
| "jsAdd NegInfinity PosInfinity = NaN"
| "jsAdd PosInfinity y = PosInfinity"
| "jsAdd x PosInfinity = PosInfinity"
| "jsAdd NegInfinity y = NegInfinity"
| "jsAdd x NegInfinity = NegInfinity"

text \<open>
  \<open>parseInt s\<close> is \<^verbatim>\<open>parseInt(s)\<close> with no radix: leading white space and a sign are
  skipped, \<^verbatim>\<open>0x\<close> selects radix 16, and the longest prefix of digits is the value, rounded
  to a double; with no digit the result is \<^verbatim>\<open>NaN\<close>. (ECMAScript lets an engine read the
  decimal digits after the twentieth as zeros; the model rounds the exact value.)
\<close>

definition parseInt :: "string \<Rightarrow> js_number" where
  "parseInt s =
     (let t = dropWhile isWhiteSpace s;
          negative = (case t of c # cs \<Rightarrow> c = CHR ''-'' | [] \<Rightarrow> False);
          u = (case t of c # cs \<Rightarrow> if c = CHR ''-'' \<or> c = CHR ''+'' then cs else t | [] \<Rightarrow> t);
          hex = (case u of c # d # ds \<Rightarrow> c = CHR ''0'' \<and> (d = CHR ''x'' \<or> d = CHR ''X'')
                         | _ \<Rightarrow> False);
          radix = (if hex then 16 else 10);
          ds = leadingDigits radix (if hex then drop 2 u else u)
      in if ds = [] then NaN
         else toDouble ((if negative then - 1 else 1) * int (digitsValue radix ds)))"

text \<open>
  \<open>showNumber x\<close> is \<^verbatim>\<open>String(x)\<close>. An integer of magnitude up to \<open>2^53\<close> is printed with
  all its digits. A larger one is printed as the decimal number with the fewest
  significant digits that rounds to it, the nearest of them (the even one of two that are
  equally near): \<open>shortestDecimal\<close>. That number is written with its digits when it has at
  most 21 of them, and with an exponent otherwise.
\<close>

definition roundsTo :: "nat \<Rightarrow> nat \<Rightarrow> bool" where
  "roundsTo c v = (toDouble (int c) = Num (int v))"

definition decimalWith :: "nat \<Rightarrow> nat \<Rightarrow> nat option" where
  "decimalWith v k =
     (let p = 10 ^ (length (showNat v) - k);
          lo = (v div p) * p;
          hi = lo + p
      in if roundsTo lo v \<and> roundsTo hi v
         then (if v - lo < hi - v \<or> (v - lo = hi - v \<and> even (v div p)) then Some lo
               else Some hi)
         else if roundsTo lo v then Some lo
         else if roundsTo hi v then Some hi
         else None)"

fun firstDecimal :: "nat \<Rightarrow> nat list \<Rightarrow> nat" where
  "firstDecimal v [] = v"
| "firstDecimal v (k # ks) =
     (case decimalWith v k of Some c \<Rightarrow> c | None \<Rightarrow> firstDecimal v ks)"

definition shortestDecimal :: "nat \<Rightarrow> nat" where
  "shortestDecimal v = firstDecimal v [1 ..< Suc (length (showNat v))]"

definition showLarge :: "nat \<Rightarrow> string" where
  "showLarge c =
     (let ds = showNat c
      in if length ds \<le> 21 then ds
         else (case rev (dropWhile (\<lambda>z. z = CHR ''0'') (rev ds)) of
                 [] \<Rightarrow> ds
               | a # b \<Rightarrow> (if b = [] then [a] else a # ''.'' @ b)
                          @ ''e+'' @ showNat (length ds - 1)))"

definition showNumber :: "js_number \<Rightarrow> string" where
  "showNumber x =
     (case x of
        NaN \<Rightarrow> ''NaN''
      | PosInfinity \<Rightarrow> ''Infinity''
      | NegInfinity \<Rightarrow> ''-Infinity''
      | Num n \<Rightarrow>
          if \<bar>n\<bar> \<le> 2 ^ 53 then showInt n
          else (if n < 0 then ''-'' else []) @ showLarge (shortestDecimal (nat \<bar>n\<bar>)))"

section \<open>The shader preprocessor\<close>

text \<open>
  Source: \<^verbatim>\<open>shader-preprocessor.js\<close>. The sources hold two copies of the file:
  \<^verbatim>\<open>src/unnamed/part_001\<close> (copyright 2020-2024) and \<^verbatim>\<open>src/unnamed/part_004\<close> (copyright
  2020-2023). They share the regular expressions, \<^verbatim>\<open>generateUnprocessedGLSL\<close>,
  \<^verbatim>\<open>readfileSync\<close>, \<^verbatim>\<open>unrollLoops\<close> and \<^verbatim>\<open>unroll\<close>, and differ in
  \<^verbatim>\<open>generateGLSL\<close> and in the table of constants.
\<close>

subsection \<open>The regular expressions\<close>

definition ws :: regex where
  "ws = Star (Chr Whitespace)"

text \<open>\<^verbatim>\<open>commentsRegex = [ /\/\*(.|\s)*?\*\//g , /\/\/.*$/gm ]\<close>\<close>

definition commentsRegex0 :: regex where
  "commentsRegex0 =
     seqs [lits ''/*'', LazyStar (Group 1 (Or (Chr Dot) (Chr Whitespace))), lits ''*/'']"

definition commentsRegex1 :: regex where
  "commentsRegex1 = seqs [lits ''//'', Star (Chr Dot), LineEnd]"

text \<open>\<^verbatim>\<open>includeRegex = /^\s*@\s*include\s+"(.*?)"/gm\<close>\<close>

definition includeRegex :: regex where
  "includeRegex =
     seqs [LineStart, ws, Chr (Literal CHR ''@''), ws, lits ''include'',
           OneOrMore (Chr Whitespace),
           Chr (Literal CHR 0x22), Group 1 (LazyStar (Chr Dot)), Chr (Literal CHR 0x22)]"

text \<open>\<^verbatim>\<open>constantRegex = /@(\w+)@/g\<close>\<close>

definition constantRegex :: regex where
  "constantRegex =
     seqs [Chr (Literal CHR ''@''), Group 1 (OneOrMore (Chr Word)), Chr (Literal CHR ''@'')]"

text \<open>
  The two expressions of \<^verbatim>\<open>unrollRegex\<close> differ in the increment only:
  \<^verbatim>\<open>/@\s*unroll\s+?for\s*\(\s*(int|)\s*(?<counter>\w+)\s*=\s*(-?\d+|\w+)\s*;\s*\k<counter>\s*(<=?)\s*(-?\d+|\w+)\s*;\s*\k<counter>\s*\+\+()\s*\)\s*\{\s*([\s\S]+?)\s*\}/g\<close>
  and the same with \<^verbatim>\<open>\+=\s*(-?\d+)\<close> in the place of \<^verbatim>\<open>\+\+()\<close>. The named group
  \<^verbatim>\<open>counter\<close> is the second group.
\<close>

definition numberOrName :: regex where
  "numberOrName =
     Or (Then (Optional (Chr (Literal CHR ''-''))) (OneOrMore (Chr Digit)))
        (OneOrMore (Chr Word))"

definition unrollHead :: "regex list" where
  "unrollHead =
     [Chr (Literal CHR ''@''), ws, lits ''unroll'', LazyOneOrMore (Chr Whitespace),
      lits ''for'', ws, Chr (Literal CHR ''(''), ws,
      Group 1 (Or (lits ''int'') Epsilon), ws,
      Group 2 (OneOrMore (Chr Word)), ws, Chr (Literal CHR ''=''), ws,
      Group 3 numberOrName, ws, Chr (Literal CHR '';''), ws, Backref 2, ws,
      Group 4 (Then (Chr (Literal CHR ''<'')) (Optional (Chr (Literal CHR ''='')))), ws,
      Group 5 numberOrName, ws, Chr (Literal CHR '';''), ws, Backref 2, ws]"

definition unrollTail :: "regex list" where
  "unrollTail =
     [ws, Chr (Literal CHR '')''), ws, Chr (Literal CHR ''{''), ws,
      Group 7 (LazyOneOrMore (Chr AnyChar)), ws, Chr (Literal CHR ''}'')]"

definition unrollRegex0 :: regex where
  "unrollRegex0 = seqs (unrollHead @ [lits ''++'', Group 6 Epsilon] @ unrollTail)"

definition unrollRegex1 :: regex where
  "unrollRegex1 =
     seqs (unrollHead
           @ [lits ''+='', ws,
              Group 6 (Then (Optional (Chr (Literal CHR ''-''))) (OneOrMore (Chr Digit)))]
           @ unrollTail)"

text \<open>\<^verbatim>\<open>/\bbreak\s*;/\<close> in \<^verbatim>\<open>unroll\<close> and \<^verbatim>\<open>/^[a-zA-Z0-9_-]+\.glsl$/\<close> in \<^verbatim>\<open>readfileSync\<close>\<close>

definition breakRegex :: regex where
  "breakRegex = seqs [WordBoundary, lits ''break'', ws, Chr (Literal CHR '';'')]"

definition filenameRegex :: regex where
  "filenameRegex =
     seqs [InputStart, OneOrMore (Or (Chr Word) (Chr (Literal CHR ''-''))), lits ''.glsl'',
           InputEnd]"

subsection \<open>The functions both copies share\<close>

text \<open>
  \<^verbatim>\<open>ShaderPreprocessorConstants\<close> is a \<^verbatim>\<open>Map\<close> from names to numbers: a list of entries in
  the order of insertion, with one entry for a name. What the module takes from its
  surroundings is the record \<open>preprocessorEnvironment\<close>: the table of the global constants
  (\<^verbatim>\<open>utils/globals\<close>, \<^verbatim>\<open>PixelComponent\<close> and the platform flags are not among the sources),
  whether \<^verbatim>\<open>SpeedyGL\<close> is initialized, and the files of \<^verbatim>\<open>shaders/include/\<close>.
\<close>

type_synonym ShaderPreprocessorConstants = "(string \<times> int) list"

record preprocessorEnvironment =
  globalConstants :: "(string \<times> int) list"
  glInitialized :: bool
  includeFiles :: "string \<Rightarrow> string option"

definition has :: "ShaderPreprocessorConstants \<Rightarrow> string \<Rightarrow> bool" where
  "has m k = (map_of m k \<noteq> None)"

definition generateUnprocessedGLSL ::
  "ShaderPreprocessorConstants \<Rightarrow> string \<Rightarrow> string option \<Rightarrow> string option \<Rightarrow> string" where
  "generateUnprocessedGLSL defines infixCode prefix suffix =
     (let parts = (case prefix of Some p \<Rightarrow> [p] | None \<Rightarrow> [])
                  @ map (\<lambda>(key, v). ''#define '' @ key @ '' '' @ showInt v) defines
                  @ [infixCode]
                  @ (case suffix of Some q \<Rightarrow> [q] | None \<Rightarrow> [])
      in join NL parts)"

text \<open>
  \<open>readfileSync\<close>: a name that is not acceptable is a \<^verbatim>\<open>FileNotFoundError\<close>; a file that
  \<^verbatim>\<open>require\<close> does not find is the error of the module loader.
\<close>

definition readfileSync :: "preprocessorEnvironment \<Rightarrow> string \<Rightarrow> string outcome" where
  "readfileSync env filename =
     (if regexFound filenameRegex filename
      then (case includeFiles env filename of
              Some content \<Rightarrow> Returns content
            | None \<Rightarrow> Throws ModuleNotFoundError)
      else Throws FileNotFoundError)"

text \<open>
  The loop \<^verbatim>\<open>for(let i = istart; i < iend; i += istep)\<close> of \<^verbatim>\<open>unroll\<close>, which appends one
  copy of the body for each value of the counter. The sum \<^verbatim>\<open>i + istep\<close> is rounded to a
  double, so from \<open>2^53\<close> on a small step may leave the counter where it is, and the loop
  then never ends: the result \<open>None\<close>. (An engine stops such a loop when the string it
  builds is too long for it.)
\<close>

partial_function (option) unrollCopies ::
  "string \<Rightarrow> string \<Rightarrow> js_number \<Rightarrow> js_number \<Rightarrow> js_number \<Rightarrow> string option" where
  "unrollCopies counter loopcode i iend istep =
     (if jsLess i iend
      then Option.bind (unrollCopies counter loopcode (jsAdd i istep) iend istep)
             (\<lambda>copies. Some (''{'' @ NL @ counter @ '' = '' @ showNumber i @ '';'' @ NL
                              @ loopcode @ NL @ ''}'' @ NL @ copies))
      else Some [])"

text \<open>\<^verbatim>\<open>defines.has(s) ? defines.get(s) : parseInt(s)\<close>\<close>

definition limitValue :: "ShaderPreprocessorConstants \<Rightarrow> string \<Rightarrow> js_number" where
  "limitValue defines s = (case map_of defines s of Some v \<Rightarrow> Num v | None \<Rightarrow> parseInt s)"

text \<open>
  \<open>unroll\<close> is the replacer of a matched loop. \<^verbatim>\<open>Utils.assert\<close> throws an assertion error
  when its condition is false, and a comparison with \<^verbatim>\<open>NaN\<close> is false.
\<close>

definition unroll ::
  "ShaderPreprocessorConstants \<Rightarrow> string \<Rightarrow> string \<Rightarrow> string \<Rightarrow> string \<Rightarrow> string \<Rightarrow> string
     \<Rightarrow> string \<Rightarrow> string \<Rightarrow> string outcome" where
  "unroll defines match type' counter start cmp end' step loopcode =
     (let hasStart = (isFiniteNumber start \<or> has defines start);
          hasEnd = (isFiniteNumber end' \<or> has defines end')
      in if \<not> hasStart \<or> \<not> hasEnd
         then (if length defines > 0 then Throws ParseError else Returns match)
         else let istart = limitValue defines start;
                  iend = limitValue defines end';
                  istep = (if length step = 0 then Num 1 else parseInt step)
              in if \<not> (jsLessEq istart iend \<and> jsLess (Num 0) istep) then Throws AssertionError
                 else let hasBreak = regexFound breakRegex loopcode;
                          unrolledCode = (if hasBreak then ''switch(1) { default:'' @ NL
                                          else ''{'' @ NL)
                                         @ type' @ '' '' @ counter @ '';'' @ NL;
                          iend' = jsAdd iend (Num (if cmp = ''<='' then 1 else 0))
                      in (case unrollCopies counter loopcode istart iend' istep of
                            Some copies \<Rightarrow> Returns (unrolledCode @ copies @ ''}'' @ NL)
                          | None \<Rightarrow> Diverges))"

definition unrollCallback ::
  "ShaderPreprocessorConstants \<Rightarrow> string \<Rightarrow> captures \<Rightarrow> unit \<Rightarrow> (string \<times> unit) outcome" where
  "unrollCallback defines match caps st =
     andThen (unroll defines match (capture caps 1) (capture caps 2) (capture caps 3)
                (capture caps 4) (capture caps 5) (capture caps 6) (capture caps 7))
       (\<lambda>unrolled. Returns (unrolled, st))"

definition unrollLoops :: "string \<Rightarrow> ShaderPreprocessorConstants \<Rightarrow> string outcome" where
  "unrollLoops code defines =
     andThen (replace unrollRegex0 (unrollCallback defines) code ()) (\<lambda>(code1, u).
     andThen (replace unrollRegex1 (unrollCallback defines) code1 ()) (\<lambda>(code2, u).
     Returns code2))"

text \<open>\<^verbatim>\<open>errors.map(msg => `\n#error ${msg}\n`).join('')\<close>\<close>

definition errorDirectives :: "string list \<Rightarrow> string" where
  "errorDirectives errors = concat (map (\<lambda>msg. NL @ ''#error '' @ msg @ NL) errors)"

subsection \<open>\<^verbatim>\<open>generateGLSL\<close>, copy of 2024 (\<^verbatim>\<open>src/unnamed/part_001\<close>)\<close>

definition generateConstants ::
  "preprocessorEnvironment \<Rightarrow> ShaderPreprocessorConstants \<Rightarrow> ShaderPreprocessorConstants outcome"
  where
  "generateConstants env defines =
     (if \<not> glInitialized env then Throws AssertionError
      else let myConstants = foldl (\<lambda>m (key, v). AList.update key v m) [] (globalConstants env)
        in Returns (foldl (\<lambda>m (key, v). AList.update key v m) myConstants defines))"

text \<open>
  The recursion on an included file has no bound in the source (no cycle detection), so
  the model takes fuel: one unit for each nesting of \<^verbatim>\<open>generateGLSL\<close>.
\<close>

primrec generateGLSL ::
  "nat \<Rightarrow> preprocessorEnvironment \<Rightarrow> ShaderPreprocessorConstants \<Rightarrow> string \<Rightarrow> string option
     \<Rightarrow> string option \<Rightarrow> string outcome" where
  "generateGLSL 0 env defines infixCode prefix suffix = OutOfFuel"
| "generateGLSL (Suc fuel) env defines infixCode prefix suffix =
     andThen (generateConstants env defines) (\<lambda>constants.
     andThen (Returns (generateUnprocessedGLSL defines infixCode prefix suffix)) (\<lambda>annotatedGLSL.
     andThen (replace commentsRegex0 (\<lambda>m caps errors. Returns ([], errors))
                annotatedGLSL []) (\<lambda>(s1, errors).
     andThen (replace commentsRegex1 (\<lambda>m caps errors. Returns ([], errors))
                s1 errors) (\<lambda>(s2, errors).
     andThen (replace constantRegex
                (\<lambda>m caps errors.
                   let name = capture caps 1
                   in (case map_of constants name of
                         Some v \<Rightarrow> Returns (showInt v, errors)
                       | None \<Rightarrow> Returns (showInt 0, errors @ [''Undefined constant '' @ name])))
                s2 errors) (\<lambda>(s3, errors).
     andThen (replace includeRegex
                (\<lambda>m caps errors.
                   andThen (readfileSync env (capture caps 1)) (\<lambda>content.
                   andThen (generateGLSL fuel env defines content None None) (\<lambda>included.
                   Returns (included, errors))))
                s3 errors) (\<lambda>(s4, errors).
     andThen (unrollLoops s4 defines) (\<lambda>unrolled.
     Returns (unrolled @ errorDirectives errors))))))))"

subsection \<open>\<^verbatim>\<open>generateGLSL\<close>, copy of 2023 (\<^verbatim>\<open>src/unnamed/part_004\<close>)\<close>

text \<open>
  Here the table \<^verbatim>\<open>constants\<close> is a plain object, so \<^verbatim>\<open>constants[name]\<close> also finds
  what every object inherits (\<^verbatim>\<open>toString\<close>, \<^verbatim>\<open>constructor\<close>, ...); \<^verbatim>\<open>Number\<close> of
  such a value is \<^verbatim>\<open>NaN\<close>.
\<close>

definition Object_prototype :: "string list" where
  "Object_prototype =
     [''constructor'', ''__defineGetter__'', ''__defineSetter__'', ''hasOwnProperty'',
      ''__lookupGetter__'', ''__lookupSetter__'', ''isPrototypeOf'', ''propertyIsEnumerable'',
      ''toString'', ''valueOf'', ''__proto__'', ''toLocaleString'']"

primrec generateGLSL_v2023 ::
  "nat \<Rightarrow> preprocessorEnvironment \<Rightarrow> ShaderPreprocessorConstants \<Rightarrow> string \<Rightarrow> string option
     \<Rightarrow> string option \<Rightarrow> string outcome" where
  "generateGLSL_v2023 0 env defines infixCode prefix suffix = OutOfFuel"
| "generateGLSL_v2023 (Suc fuel) env defines infixCode prefix suffix =
     andThen (Returns (generateUnprocessedGLSL defines infixCode prefix suffix)) (\<lambda>code.
     andThen (replace commentsRegex0 (\<lambda>m caps errors. Returns ([], errors))
                code []) (\<lambda>(s1, errors).
     andThen (replace commentsRegex1 (\<lambda>m caps errors. Returns ([], errors))
                s1 errors) (\<lambda>(s2, errors).
     andThen (replace includeRegex
                (\<lambda>m caps errors.
                   andThen (readfileSync env (capture caps 1)) (\<lambda>content.
                   andThen (generateGLSL_v2023 fuel env defines content None None) (\<lambda>included.
                   Returns (included, errors))))
                s2 errors) (\<lambda>(s3, errors).
     andThen (replace constantRegex
                (\<lambda>m caps errors.
                   let name = capture caps 1
                   in (case map_of defines name of
                         Some v \<Rightarrow> Returns (showInt v, errors)
                       | None \<Rightarrow>
                           (case map_of (globalConstants env) name of
                              Some v \<Rightarrow> Returns (showInt v, errors)
                            | None \<Rightarrow>
                                if name \<in> set Object_prototype then Returns (''NaN'', errors)
                                else Returns (showInt 0,
                                       errors @ [''Undefined constant: '' @ name]))))
                s3 errors) (\<lambda>(s4, errors).
     andThen (unrollLoops s4 defines) (\<lambda>unrolled.
     Returns (unrolled
              @ (if length errors > 0 then errorDirectives errors else []))))))))"

subsection \<open>The pipeline in the words of the specification\<close>

text \<open>
  The stages as the specification lists them, each a function of its own, to compare
  \<open>generateGLSL\<close> with. A \<open>resolver\<close> gives the text that replaces a name and, for a name
  it does not know, a diagnostic.
\<close>

type_synonym resolver = "string \<Rightarrow> string \<times> string option"

definition removeMatches :: "regex \<Rightarrow> string \<Rightarrow> string" where
  "removeMatches r s =
     concat (map (\<lambda>seg. case seg of Plain c \<Rightarrow> [c] | Matched m caps \<Rightarrow> [])
                 (segments r None s))"

definition stripComments :: "string \<Rightarrow> string" where
  "stripComments s = removeMatches commentsRegex1 (removeMatches commentsRegex0 s)"

fun substituteIn :: "resolver \<Rightarrow> segment list \<Rightarrow> string \<times> string list" where
  "substituteIn resolve [] = ([], [])"
| "substituteIn resolve (Plain c # segs) =
     (case substituteIn resolve segs of (t, ds) \<Rightarrow> (c # t, ds))"
| "substituteIn resolve (Matched m caps # segs) =
     (case resolve (capture caps 1) of (rep, d) \<Rightarrow>
        (case substituteIn resolve segs of (t, ds) \<Rightarrow>
           (rep @ t, (case d of Some msg \<Rightarrow> [msg] | None \<Rightarrow> []) @ ds)))"

definition substituteConstants :: "resolver \<Rightarrow> string \<Rightarrow> string \<times> string list" where
  "substituteConstants resolve s = substituteIn resolve (segments constantRegex None s)"

fun expandIn ::
  "(string \<Rightarrow> string outcome) \<Rightarrow> preprocessorEnvironment \<Rightarrow> segment list \<Rightarrow> string outcome" where
  "expandIn rerun env [] = Returns []"
| "expandIn rerun env (Plain c # segs) =
     andThen (expandIn rerun env segs) (\<lambda>t. Returns (c # t))"
| "expandIn rerun env (Matched m caps # segs) =
     andThen (readfileSync env (capture caps 1)) (\<lambda>content.
     andThen (rerun content) (\<lambda>included.
     andThen (expandIn rerun env segs) (\<lambda>t. Returns (included @ t))))"

definition expandIncludes ::
  "(string \<Rightarrow> string outcome) \<Rightarrow> preprocessorEnvironment \<Rightarrow> string \<Rightarrow> string outcome" where
  "expandIncludes rerun env s = expandIn rerun env (segments includeRegex None s)"

text \<open>
  The order the specification gives: comments, constants, includes (re-running the whole
  pipeline on the included file), loops; the diagnostics of the constants come last.
\<close>

primrec constantsThenIncludes ::
  "nat \<Rightarrow> resolver outcome \<Rightarrow> preprocessorEnvironment \<Rightarrow> ShaderPreprocessorConstants \<Rightarrow> string
     \<Rightarrow> string option \<Rightarrow> string option \<Rightarrow> string outcome" where
  "constantsThenIncludes 0 table env defines code prefix suffix = OutOfFuel"
| "constantsThenIncludes (Suc fuel) table env defines code prefix suffix =
     andThen table (\<lambda>resolve.
       case substituteConstants resolve
              (stripComments (generateUnprocessedGLSL defines code prefix suffix)) of
         (substituted, diagnostics) \<Rightarrow>
           andThen (expandIncludes
                      (\<lambda>included. constantsThenIncludes fuel table env defines included None None)
                      env substituted) (\<lambda>expanded.
           andThen (unrollLoops expanded defines) (\<lambda>unrolled.
           Returns (unrolled @ errorDirectives diagnostics))))"

text \<open>The other order: comments, includes, constants, loops.\<close>

primrec includesThenConstants ::
  "nat \<Rightarrow> resolver outcome \<Rightarrow> preprocessorEnvironment \<Rightarrow> ShaderPreprocessorConstants \<Rightarrow> string
     \<Rightarrow> string option \<Rightarrow> string option \<Rightarrow> string outcome" where
  "includesThenConstants 0 table env defines code prefix suffix = OutOfFuel"
| "includesThenConstants (Suc fuel) table env defines code prefix suffix =
     andThen table (\<lambda>resolve.
       andThen (expandIncludes
                  (\<lambda>included. includesThenConstants fuel table env defines included None None)
                  env (stripComments (generateUnprocessedGLSL defines code prefix suffix)))
         (\<lambda>expanded.
            case substituteConstants resolve expanded of
              (substituted, diagnostics) \<Rightarrow>
                andThen (unrollLoops substituted defines) (\<lambda>unrolled.
                Returns (unrolled @ errorDirectives diagnostics))))"

text \<open>
  The symbol table of each copy: the defines first, then the global constants. Building
  the table of 2024 asserts that \<^verbatim>\<open>SpeedyGL\<close> is initialized.
\<close>

definition symbolTable ::
  "preprocessorEnvironment \<Rightarrow> ShaderPreprocessorConstants \<Rightarrow> resolver outcome" where
  "symbolTable env defines =
     andThen (generateConstants env defines) (\<lambda>constants.
       Returns (\<lambda>name. case map_of constants name of
                  Some v \<Rightarrow> (showInt v, None)
                | None \<Rightarrow> (showInt 0, Some (''Undefined constant '' @ name))))"

definition symbolTable_v2023 ::
  "preprocessorEnvironment \<Rightarrow> ShaderPreprocessorConstants \<Rightarrow> resolver outcome" where
  "symbolTable_v2023 env defines =
     Returns (\<lambda>name. case map_of defines name of
                Some v \<Rightarrow> (showInt v, None)
              | None \<Rightarrow>
                  (case map_of (globalConstants env) name of
                     Some v \<Rightarrow> (showInt v, None)
                   | None \<Rightarrow>
                       if name \<in> set Object_prototype then (''NaN'', None)
                       else (showInt 0, Some (''Undefined constant: '' @ name))))"

text \<open>
  Fully resolved text: no comment, no \<^verbatim>\<open>@NAME@\<close> token, no \<^verbatim>\<open>@include\<close> directive and no
  \<^verbatim>\<open>@unroll\<close> loop is left, that is, none of the expressions matches anywhere.
\<close>

definition fullyResolved :: "string \<Rightarrow> bool" where
  "fullyResolved s =
     (\<not> regexFound commentsRegex0 s \<and> \<not> regexFound commentsRegex1 s
      \<and> \<not> regexFound constantRegex s \<and> \<not> regexFound includeRegex s
      \<and> \<not> regexFound unrollRegex0 s \<and> \<not> regexFound unrollRegex1 s)"

text \<open>
  The text a list of segments spells, and the captures of its matches: \<open>loopsFound r code\<close>
  has the captures of every loop the expression \<open>r\<close> finds in \<open>code\<close>, in their order. A
  loop has unresolved limits for a table of defines when its START (capture 3) or its END
  (capture 5) is neither a finite number nor a name of that table.
\<close>

fun segmentText :: "segment \<Rightarrow> string" where
  "segmentText (Plain c) = [c]"
| "segmentText (Matched m caps) = m"

fun segmentCaptures :: "segment \<Rightarrow> captures list" where
  "segmentCaptures (Plain c) = []"
| "segmentCaptures (Matched m caps) = [caps]"

definition capturesOf :: "segment list \<Rightarrow> captures list" where
  "capturesOf segs = concat (map segmentCaptures segs)"

definition loopsFound :: "regex \<Rightarrow> string \<Rightarrow> captures list" where
  "loopsFound r code = capturesOf (segments r None code)"

definition unresolvedLimits :: "ShaderPreprocessorConstants \<Rightarrow> captures \<Rightarrow> bool" where
  "unresolvedLimits defines caps =
     (\<not> (isFiniteNumber (capture caps 3) \<or> has defines (capture caps 3))
      \<or> \<not> (isFiniteNumber (capture caps 5) \<or> has defines (capture caps 5)))"

text \<open>
  The counter values the specification names, from START up to the exclusive bound
  stepping by STEP, and one inlined copy of the body.
\<close>

definition counterValues :: "int \<Rightarrow> int \<Rightarrow> int \<Rightarrow> int list" where
  "counterValues first bound step =
     map (\<lambda>k. first + int k * step) [0 ..< nat ((bound - first + step - 1) div step)]"

definition inlinedCopy :: "string \<Rightarrow> string \<Rightarrow> int \<Rightarrow> string" where
  "inlinedCopy counter loopcode i =
     ''{'' @ NL @ counter @ '' = '' @ showInt i @ '';'' @ NL @ loopcode @ NL @ ''}'' @ NL"

subsection \<open>Example inputs\<close>

text \<open>
  An environment with one global constant and two include files; the loops of the
  specification's examples and their expansion.
\<close>

definition exampleEnvironment :: preprocessorEnvironment where
  "exampleEnvironment =
     \<lparr> globalConstants = [(''G'', 5)], glInitialized = True,
       includeFiles = [''a.glsl'' \<mapsto> ''float a = @G@;'', ''7.glsl'' \<mapsto> ''seven''] \<rparr>"

definition includeOfConstant :: string where
  "includeOfConstant = ''@include '' @ [CHR 0x22] @ ''@N@.glsl'' @ [CHR 0x22]"

definition threeCopies :: string where
  "threeCopies =
     glslLines [''{'', ''int i;'',
                ''{'', ''i = 0;'', ''X(i);'', ''}'',
                ''{'', ''i = 1;'', ''X(i);'', ''}'',
                ''{'', ''i = 2;'', ''X(i);'', ''}'',
                ''}'']"

section \<open>Theorems\<close>

subsection \<open>Ports\<close>

text \<open>
  C10. For every port, \<open>read\<close> throws, and then an IllegalOperationError, exactly when the
  port holds the empty (Nothing) message; otherwise it returns the stored message
  unchanged. \<open>hasMessage\<close> is true exactly when \<open>read\<close> returns a message. The port holds
  the empty message after \<open>clearMessage\<close> and when it has just been constructed.
\<close>

theorem read_throws_iff_empty:
  "((read p = Inl IllegalOperationError) = isEmpty (portMessage (portBase p)))
   \<and> (\<forall>e. read p = Inl e \<longrightarrow> e = IllegalOperationError)
   \<and> (\<not> isEmpty (portMessage (portBase p)) \<longrightarrow> read p = Inr (portMessage (portBase p)))
   \<and> (hasMessage p = (\<exists>m. read p = Inr m))
   \<and> read (clearMessage p) = Inl IllegalOperationError
   \<and> (\<forall>q. newOutputPort name spec node = Inr q \<or> newInputPort name spec node = Inr q
          \<longrightarrow> read q = Inl IllegalOperationError)"
  by (cases p) (auto simp: read_def hasMessage_def clearMessage_def isEmpty_def hasType_def
      EMPTY_MESSAGE_def newOutputPort_def newInputPort_def newPort_def Let_def
      split: if_splits sum.splits)

theorem read_throws_iff_empty_witness:
  "\<not> isEmpty (portMessage (portBase imagePortHolding7))
   \<and> read imagePortHolding7 = Inr (SpeedyPipelineMessageWith MsgImage 7)
   \<and> hasMessage imagePortHolding7
   \<and> read (clearMessage imagePortHolding7) = Inl IllegalOperationError
   \<and> newOutputPort ''out'' imageSpec ''blur''
        = Inr (SpeedyPipelineOutputPort
                (examplePort imageSpec\<lparr> portName := ''out'', portNode := ''blur'' \<rparr>) None)
   \<and> read (SpeedyPipelineOutputPort
               (examplePort imageSpec\<lparr> portName := ''out'', portNode := ''blur'' \<rparr>) None)
        = Inl IllegalOperationError"
  using read_throws_iff_empty [of imagePortHolding7 "''out''" imageSpec "''blur''"]
  by (simp add: imagePortHolding7_def examplePort_def isEmpty_def hasType_def
      newOutputPort_def newPort_def isLowerChar_def isUpperChar_def isDigitChar_def
      charBetween_def EMPTY_MESSAGE_def)

lemmas port_examples =
  linkedStore_def strictStore_def examplePort_def imageSpec_def keypointsSpec_def
  smallImageSpec_def isSmallImage_def always_def EMPTY_MESSAGE_def

text \<open>
  C5 (as amended). When an input port is connected to a port, the call succeeds exactly when
  the target is an output port and the two specifications expect the same message type; it
  then sets the incoming link to the target. In every other case it throws an
  IllegalArgumentError at once and leaves the store, and so the incoming link, as it was:
  unset if it was unset, and still pointing to the earlier output port if the input port
  was linked before.
\<close>

theorem connectTo_checks_message_type:
  assumes "h this = Some (SpeedyPipelineInputPort b l)" and "h port = Some p"
  shows "InputPort_connectTo h this port
         = (if isOutputPort p
               \<and> expectedMessageType (portSpec b) = expectedMessageType (portSpec (portBase p))
            then (Inr (), h(this \<mapsto> SpeedyPipelineInputPort b (Some port)))
            else (Inl IllegalArgumentError, h))
       \<and> linkOf (snd (InputPort_connectTo h this port)) this
         = (if isOutputPort p
               \<and> expectedMessageType (portSpec b) = expectedMessageType (portSpec (portBase p))
            then Some port else l)"
  using assms
  by (simp add: InputPort_connectTo_def isCompatibleWith_def linkOf_def)

theorem connectTo_checks_message_type_witness:
  "unlinkedStore 0 = Some (SpeedyPipelineInputPort (examplePort imageSpec) None)
   \<and> unlinkedStore 1 = Some (SpeedyPipelineOutputPort (examplePort imageSpec) None)
   \<and> unlinkedStore 2 = Some (SpeedyPipelineOutputPort (examplePort keypointsSpec) None)
   \<and> InputPort_connectTo unlinkedStore 0 2 = (Inl IllegalArgumentError, unlinkedStore)
   \<and> linkOf (snd (InputPort_connectTo unlinkedStore 0 2)) 0 = None
   \<and> InputPort_connectTo unlinkedStore 0 1 = (Inr (), linkedStore)
   \<and> linkOf (snd (InputPort_connectTo unlinkedStore 0 1)) 0 = Some 1"
proof -
  have p0: "unlinkedStore 0 = Some (SpeedyPipelineInputPort (examplePort imageSpec) None)"
    and p1: "unlinkedStore 1 = Some (SpeedyPipelineOutputPort (examplePort imageSpec) None)"
    and p2: "unlinkedStore 2 = Some (SpeedyPipelineOutputPort (examplePort keypointsSpec) None)"
    by (simp_all add: unlinkedStore_def)
  have upd: "unlinkedStore(0 \<mapsto> SpeedyPipelineInputPort (examplePort imageSpec) (Some 1))
             = linkedStore"
    by (rule ext) (simp add: unlinkedStore_def linkedStore_def)
  note bad = connectTo_checks_message_type
               [of unlinkedStore 0 "examplePort imageSpec" None 2
                   "SpeedyPipelineOutputPort (examplePort keypointsSpec) None", OF p0 p2]
  note good = connectTo_checks_message_type
               [of unlinkedStore 0 "examplePort imageSpec" None 1
                   "SpeedyPipelineOutputPort (examplePort imageSpec) None", OF p0 p1]
  from bad [THEN conjunct1]
  have "InputPort_connectTo unlinkedStore 0 2 = (Inl IllegalArgumentError, unlinkedStore)"
    by (simp add: port_examples isOutputPort_def)
  moreover from bad [THEN conjunct2]
  have "linkOf (snd (InputPort_connectTo unlinkedStore 0 2)) 0 = None"
    by (simp add: port_examples isOutputPort_def)
  moreover from good [THEN conjunct1]
  have "InputPort_connectTo unlinkedStore 0 1 = (Inr (), linkedStore)"
    by (simp add: isOutputPort_def upd del: One_nat_def)
  moreover from good [THEN conjunct2]
  have "linkOf (snd (InputPort_connectTo unlinkedStore 0 1)) 0 = Some 1"
    by (simp add: port_examples isOutputPort_def)
  ultimately show ?thesis using p0 p1 p2 by simp
qed

text \<open>
  The claim as stated fails: after a mismatched connect the incoming link of a port that was
  linked before is not unset.
\<close>

theorem failed_connect_keeps_earlier_link:
  "expectedMessageType (portSpec (examplePort imageSpec))
     \<noteq> expectedMessageType (portSpec (examplePort keypointsSpec))
   \<and> linkedStore 0 = Some (SpeedyPipelineInputPort (examplePort imageSpec) (Some 1))
   \<and> linkedStore 2 = Some (SpeedyPipelineOutputPort (examplePort keypointsSpec) None)
   \<and> fst (InputPort_connectTo linkedStore 0 2) = Inl IllegalArgumentError
   \<and> linkOf (snd (InputPort_connectTo linkedStore 0 2)) 0 = Some 1"
  by (simp add: port_examples InputPort_connectTo_def isOutputPort_def isCompatibleWith_def
      linkOf_def)

text \<open>Connecting from the output port delegates to the input port.\<close>

lemma OutputPort_connectTo_delegates:
  assumes "h this = Some (SpeedyPipelineOutputPort b c)"
      and "h port = Some (SpeedyPipelineInputPort b' l)"
  shows "OutputPort_connectTo h this port
         = (if expectedMessageType (portSpec b') = expectedMessageType (portSpec b)
            then (Inr (), h(port \<mapsto> SpeedyPipelineInputPort b' (Some this)))
            else (Inl IllegalArgumentError, h))"
  using assms
  by (simp add: OutputPort_connectTo_def InputPort_connectTo_def isCompatibleWith_def
      isOutputPort_def)

text \<open>
  C6 (as amended). Writing a message to an output port throws an IllegalArgumentError at once
  exactly when the specification of that output port does not accept the message (wrong
  type or failed predicate), and the stored message is then unchanged; otherwise the
  message is stored. The write does not consult the specification of an input port linked
  to the output port: that specification is checked when the input port pulls the
  message, and the pull throws an IllegalArgumentError if it does not accept it.
\<close>

theorem write_checks_own_spec:
  assumes "h this = Some (SpeedyPipelineOutputPort b c)"
  shows "OutputPort_write h this message
         = (if accepts (portSpec b) message
            then (Inr (), h(this \<mapsto> SpeedyPipelineOutputPort (b\<lparr> portMessage := message \<rparr>) c))
            else (Inl IllegalArgumentError, h))
       \<and> messageOf (snd (OutputPort_write h this message)) this
         = Some (if accepts (portSpec b) message then message else portMessage b)
       \<and> (h inp = Some (SpeedyPipelineInputPort bi (Some this))
             \<and> accepts (portSpec b) message \<and> \<not> isEmpty message
           \<longrightarrow> fst (pullMessage (snd (OutputPort_write h this message)) inp)
               = (if accepts (portSpec bi) message then Inr message
                  else Inl IllegalArgumentError))"
proof -
  have triv: "h(this \<mapsto> SpeedyPipelineOutputPort b c) = h"
    using assms by (simp add: fun_upd_idem)
  have w: "OutputPort_write h this message
         = (if accepts (portSpec b) message
            then (Inr (), h(this \<mapsto> SpeedyPipelineOutputPort (b\<lparr> portMessage := message \<rparr>) c))
            else (Inl IllegalArgumentError, h))"
    using assms by (simp add: OutputPort_write_def triv)
  have m: "messageOf (snd (OutputPort_write h this message)) this
         = Some (if accepts (portSpec b) message then message else portMessage b)"
    using assms by (simp add: w messageOf_def)
  have p: "fst (pullMessage (snd (OutputPort_write h this message)) inp)
               = (if accepts (portSpec bi) message then Inr message
                  else Inl IllegalArgumentError)"
    if "h inp = Some (SpeedyPipelineInputPort bi (Some this))"
       "accepts (portSpec b) message" "\<not> isEmpty message"
  proof -
    have "inp \<noteq> this" using that(1) assms by auto
    then show ?thesis
      using that by (simp add: w pullMessage_def read_def)
  qed
  show ?thesis using w m p by blast
qed

theorem write_checks_own_spec_witness:
  "strictStore 1 = Some (SpeedyPipelineOutputPort (examplePort imageSpec) None)
   \<and> strictStore 0 = Some (SpeedyPipelineInputPort (examplePort smallImageSpec) (Some 1))
   \<and> accepts (portSpec (examplePort imageSpec)) (SpeedyPipelineMessageWith MsgImage 7)
   \<and> \<not> isEmpty (SpeedyPipelineMessageWith MsgImage 7 :: nat SpeedyPipelineMessage)
   \<and> fst (OutputPort_write strictStore 1 (SpeedyPipelineMessageWith MsgImage 7)) = Inr ()
   \<and> messageOf (snd (OutputPort_write strictStore 1 (SpeedyPipelineMessageWith MsgImage 7))) 1
       = Some (SpeedyPipelineMessageWith MsgImage 7)
   \<and> fst (pullMessage (snd (OutputPort_write strictStore 1 (SpeedyPipelineMessageWith MsgImage 7))) 0)
       = Inr (SpeedyPipelineMessageWith MsgImage 7)"
proof -
  let ?m = "SpeedyPipelineMessageWith MsgImage 7 :: nat SpeedyPipelineMessage"
  have out: "strictStore 1 = Some (SpeedyPipelineOutputPort (examplePort imageSpec) None)"
    and inp: "strictStore 0 = Some (SpeedyPipelineInputPort (examplePort smallImageSpec) (Some 1))"
    by (simp_all add: strictStore_def)
  have acc: "accepts (portSpec (examplePort imageSpec)) ?m"
    and acc': "accepts (portSpec (examplePort smallImageSpec)) ?m"
    and full: "\<not> isEmpty ?m"
    by (simp_all add: port_examples accepts_def hasType_def isEmpty_def)
  note t = write_checks_own_spec
             [of strictStore 1 "examplePort imageSpec" None ?m 0 "examplePort smallImageSpec",
              OF out]
  from t [THEN conjunct1] acc
  have "fst (OutputPort_write strictStore 1 ?m) = Inr ()" by simp
  moreover from t [THEN conjunct2, THEN conjunct1] acc
  have "messageOf (snd (OutputPort_write strictStore 1 ?m)) 1 = Some ?m" by simp
  moreover from t [THEN conjunct2, THEN conjunct2] inp acc acc' full
  have "fst (pullMessage (snd (OutputPort_write strictStore 1 ?m)) 0) = Inr ?m" by simp
  ultimately show ?thesis using out inp acc full by simp
qed

text \<open>
  The claim as stated fails: a message that the predicate of the linked input port rejects
  is written without an error, and the error comes when the message is pulled.
\<close>

theorem predicate_of_input_port_checked_at_pull:
  "strictStore 1 = Some (SpeedyPipelineOutputPort (examplePort imageSpec) None)
   \<and> strictStore 0 = Some (SpeedyPipelineInputPort (examplePort smallImageSpec) (Some 1))
   \<and> \<not> accepts smallImageSpec (SpeedyPipelineMessageWith MsgImage 50)
   \<and> fst (OutputPort_write strictStore 1 (SpeedyPipelineMessageWith MsgImage 50)) = Inr ()
   \<and> fst (pullMessage (snd (OutputPort_write strictStore 1 (SpeedyPipelineMessageWith MsgImage 50))) 0)
       = Inl IllegalArgumentError"
  by (simp add: port_examples OutputPort_write_def pullMessage_def read_def accepts_def
      hasType_def isEmpty_def)

subsection \<open>Feature texture codec\<close>

lemma normalized_eq_1: "(normalized b = 1) = (b = 255)"
proof -
  have "(b = 255) = (unat b = unat (255 :: byte))" by (rule word_unat_eq_iff)
  moreover have "(normalized b = 1) = (unat b = 255)"
    unfolding normalized_def by (simp del: of_nat_unat)
  ultimately show ?thesis by simp
qed

lemma normalized_eq_0: "(normalized b = 0) = (b = 0)"
  unfolding normalized_def by (simp add: unat_eq_0 del: of_nat_unat)

lemma normalized_nonneg: "0 \<le> normalized b"
  unfolding normalized_def by (simp del: of_nat_unat)

lemma normalized_sum_0: "(normalized a + normalized b = 0) = (a = 0 \<and> b = 0)"
  using normalized_nonneg [of a] normalized_nonneg [of b]
  by (auto simp: normalized_eq_0 add_nonneg_eq_0_iff)

lemma readKeypointData_bytes:
  "readKeypointData tex n \<lparr> base = k, offset = j \<rparr>
   = (normalized (red (recordPixel tex n (k + j))), normalized (green (recordPixel tex n (k + j))),
      normalized (blue (recordPixel tex n (k + j))), normalized (alpha (recordPixel tex n (k + j))))"
  by (simp add: readKeypointData_def recordPixel_def pixelAt_def Let_def encodeNullKeypoint_def
      allBytes_def normalized_def)

lemma rgba8_eq_allBytes:
  "(p = allBytes b) = (red p = b \<and> green p = b \<and> blue p = b \<and> alpha p = b)"
  by (cases p) (auto simp: allBytes_def)

text \<open>
  C7. Decoding a feature record: the record is the terminator (the null flag is set) exactly
  when the four bytes of its position pixel are all at the maximum 255, which is the pixel
  \<open>encodeNullKeypoint\<close> writes and is 0xFFFF in both 16-bit coordinates; it is discarded
  (the discarded flag is set) exactly when all eight bytes of its header, position pixel
  and properties pixel, are zero; in both cases the decoded score is \<open>-1\<close>, and for every
  other record the score is decoded from the half-float field, the last two bytes of the
  properties pixel.
\<close>

theorem decodeKeypoint_classifies:
  "isNullKeypoint (decodeKeypoint inc tex n address)
     = (recordPixel tex n (base address) = allBytes 255)
   \<and> (readKeypointData tex n \<lparr> base = base address, offset = 0 \<rparr> = encodeNullKeypoint)
     = (recordPixel tex n (base address) = allBytes 255)
   \<and> isDiscardedKeypoint (decodeKeypoint inc tex n address)
     = (recordPixel tex n (base address) = allBytes 0
        \<and> recordPixel tex n (base address + 1) = allBytes 0)
   \<and> score (decodeKeypoint inc tex n address)
     = (if recordPixel tex n (base address) = allBytes 255
          \<or> (recordPixel tex n (base address) = allBytes 0
              \<and> recordPixel tex n (base address + 1) = allBytes 0)
        then - 1
        else decodeFloat16 inc
               (normalized (blue (recordPixel tex n (base address + 1))),
                normalized (alpha (recordPixel tex n (base address + 1)))))"
  by (auto simp add: decodeKeypoint_def Let_def readKeypointData_bytes allEqual_def add4_def
      vec4of_def isNullKeypoint_def isDiscardedKeypoint_def KPF_NONE_def KPF_NULL_def
      KPF_DISCARDED_def rgba8_eq_allBytes normalized_eq_1 normalized_sum_0
      decodeKeypointScore_def encodeNullKeypoint_def)

text \<open>
  On the example texture: the first record is a keypoint with its score decoded, the second
  is discarded, and the third, past the end of the texture, is the terminator.
\<close>

theorem decodeKeypoint_classifies_example:
  "\<not> isNullKeypoint (decodeKeypoint exampleIncludes exampleTexture 2 \<lparr> base = 0, offset = 0 \<rparr>)
   \<and> \<not> isDiscardedKeypoint
         (decodeKeypoint exampleIncludes exampleTexture 2 \<lparr> base = 0, offset = 0 \<rparr>)
   \<and> score (decodeKeypoint exampleIncludes exampleTexture 2 \<lparr> base = 0, offset = 0 \<rparr>) = 256
   \<and> isDiscardedKeypoint
         (decodeKeypoint exampleIncludes exampleTexture 2 \<lparr> base = 2, offset = 0 \<rparr>)
   \<and> score (decodeKeypoint exampleIncludes exampleTexture 2 \<lparr> base = 2, offset = 0 \<rparr>) = - 1
   \<and> isNullKeypoint (decodeKeypoint exampleIncludes exampleTexture 2 \<lparr> base = 4, offset = 0 \<rparr>)
   \<and> score (decodeKeypoint exampleIncludes exampleTexture 2 \<lparr> base = 4, offset = 0 \<rparr>) = - 1"
  using decodeKeypoint_classifies
          [of exampleIncludes exampleTexture 2 "\<lparr> base = 0, offset = 0 \<rparr>"]
        decodeKeypoint_classifies
          [of exampleIncludes exampleTexture 2 "\<lparr> base = 2, offset = 0 \<rparr>"]
        decodeKeypoint_classifies
          [of exampleIncludes exampleTexture 2 "\<lparr> base = 4, offset = 0 \<rparr>"]
  by (simp add: recordPixel_def exampleTexture_def exampleIncludes_def rgba8_eq_allBytes
      allBytes_def normalized_def)

subsection \<open>Polling the fence\<close>














subsection \<open>The shader preprocessor\<close>

text \<open>Where an expression matches nowhere, replacing changes nothing.\<close>

lemma segments_no_match:
  "\<not> regexFoundFrom r p s \<Longrightarrow> segments r p s = map Plain s"
proof (induction s arbitrary: p)
  case Nil
  then show ?case by (subst segments.simps) (simp add: rfirst_def)
next
  case (Cons c cs)
  then show ?case by (subst segments.simps) (simp add: rfirst_def)
qed

lemma replaceSegments_plain:
  "replaceSegments f (map Plain s) st = Returns (s, st)"
  by (induction s) simp_all

lemma replace_no_match:
  "\<not> regexFound r s \<Longrightarrow> replace r f s st = Returns (s, st)"
  by (simp add: replace_def regexFound_def segments_no_match replaceSegments_plain)

lemma unrollLoops_no_match:
  "\<not> regexFound unrollRegex0 s \<Longrightarrow> \<not> regexFound unrollRegex1 s \<Longrightarrow> unrollLoops s defines = Returns s"
  by (simp add: unrollLoops_def replace_no_match)

text \<open>The replacers of \<open>generateGLSL\<close> and the stages of the specification.\<close>

lemma replace_remove:
  "replaceSegments (\<lambda>m caps st. Returns ([], st)) segs st
   = Returns (concat (map (\<lambda>seg. case seg of Plain c \<Rightarrow> [c] | Matched m caps \<Rightarrow> []) segs), st)"
proof (induction segs)
  case Nil
  then show ?case by simp
next
  case (Cons seg segs)
  then show ?case by (cases seg) simp_all
qed

lemma replace_substitute:
  "replaceSegments (\<lambda>m caps errors. case resolve (capture caps 1) of
        (rep, d) \<Rightarrow> Returns (rep, errors @ (case d of Some msg \<Rightarrow> [msg] | None \<Rightarrow> []))) segs errors
   = Returns (fst (substituteIn resolve segs), errors @ snd (substituteIn resolve segs))"
proof (induction segs arbitrary: errors)
  case Nil
  then show ?case by simp
next
  case (Cons seg segs)
  then show ?case
    by (cases seg) (simp_all split: prod.splits option.splits)
qed

lemma replace_expand:
  "replaceSegments (\<lambda>m caps st.
        andThen (readfileSync env (capture caps 1)) (\<lambda>text.
        andThen (rerun text) (\<lambda>included. Returns (included, st)))) segs st
   = andThen (expandIn rerun env segs) (\<lambda>t. Returns (t, st))"
proof (induction segs)
  case Nil
  then show ?case by simp
next
  case (Cons seg segs)
  show ?case
  proof (cases seg)
    case (Plain c)
    with Cons show ?thesis by (cases "expandIn rerun env segs") simp_all
  next
    case (Matched m caps)
    show ?thesis
    proof (cases "readfileSync env (capture caps 1)")
      case (Returns content)
      with Cons Matched show ?thesis
        by (cases "rerun content"; cases "expandIn rerun env segs") simp_all
    qed (simp_all add: Matched)
  qed
qed

lemma andThen_assoc:
  "andThen (andThen m f) g = andThen m (\<lambda>x. andThen (f x) g)"
  by (cases m) simp_all

lemma replace_comments:
  "replace r (\<lambda>m caps errors. Returns ([], errors)) s errors = Returns (removeMatches r s, errors)"
  by (simp add: replace_def removeMatches_def replace_remove)

lemma replace_constants_2024:
  "replace constantRegex
     (\<lambda>m caps errors.
        let name = capture caps 1
        in (case map_of constants name of
              Some v \<Rightarrow> Returns (showInt v, errors)
            | None \<Rightarrow> Returns (showInt 0, errors @ [''Undefined constant '' @ name])))
     s []
   = Returns (substituteConstants
       (\<lambda>name. case map_of constants name of
                  Some v \<Rightarrow> (showInt v, None)
                | None \<Rightarrow> (showInt 0, Some (''Undefined constant '' @ name))) s)"
proof -
  let ?resolve = "\<lambda>name. case map_of constants name of
                  Some v \<Rightarrow> (showInt v, None)
                | None \<Rightarrow> (showInt 0, Some (''Undefined constant '' @ name))"
  have eq: "(\<lambda>m caps errors.
        let name = capture caps 1
        in (case map_of constants name of
              Some v \<Rightarrow> Returns (showInt v, errors)
            | None \<Rightarrow> Returns (showInt 0, errors @ [''Undefined constant '' @ name])))
     = (\<lambda>m caps errors. case ?resolve (capture caps 1) of
        (rep, d) \<Rightarrow> Returns (rep, errors @ (case d of Some msg \<Rightarrow> [msg] | None \<Rightarrow> [])))"
    by (intro ext) (simp add: Let_def del: One_nat_def split: option.splits)
  show ?thesis
    unfolding replace_def substituteConstants_def eq
    using replace_substitute [of ?resolve "segments constantRegex None s" "[]"]
    by (simp del: One_nat_def)
qed

lemma replace_includes:
  "replace includeRegex
     (\<lambda>m caps errors.
        andThen (readfileSync env (capture caps 1)) (\<lambda>content.
        andThen (rerun content) (\<lambda>included. Returns (included, errors))))
     s errors
   = andThen (expandIncludes rerun env s) (\<lambda>t. Returns (t, errors))"
  by (simp add: replace_def expandIncludes_def replace_expand del: One_nat_def)

lemma generateGLSL_order:
  "generateGLSL fuel env defines code prefix suffix
   = constantsThenIncludes fuel (symbolTable env defines) env defines code prefix suffix"
proof (induction fuel arbitrary: code prefix suffix)
  case 0
  show ?case by simp
next
  case (Suc fuel)
  show ?case
  proof (cases "glInitialized env")
    case False
    then show ?thesis by (simp add: generateConstants_def symbolTable_def)
  next
    case True
    then show ?thesis
      by (simp add: generateConstants_def symbolTable_def replace_comments stripComments_def
          replace_constants_2024 replace_includes Suc.IH andThen_assoc del: One_nat_def split: prod.splits)
         
  qed
qed

lemma replace_constants_2023:
  "replace constantRegex
     (\<lambda>m caps errors.
        let name = capture caps 1
        in (case map_of defines name of
              Some v \<Rightarrow> Returns (showInt v, errors)
            | None \<Rightarrow>
                (case map_of globals name of
                   Some v \<Rightarrow> Returns (showInt v, errors)
                 | None \<Rightarrow>
                     if name \<in> set Object_prototype then Returns (''NaN'', errors)
                     else Returns (showInt 0, errors @ [''Undefined constant: '' @ name]))))
     s errors
   = Returns (fst (substituteConstants
       (\<lambda>name. case map_of defines name of
                Some v \<Rightarrow> (showInt v, None)
              | None \<Rightarrow>
                  (case map_of globals name of
                     Some v \<Rightarrow> (showInt v, None)
                   | None \<Rightarrow>
                       if name \<in> set Object_prototype then (''NaN'', None)
                       else (showInt 0, Some (''Undefined constant: '' @ name)))) s),
       errors @ snd (substituteConstants
       (\<lambda>name. case map_of defines name of
                Some v \<Rightarrow> (showInt v, None)
              | None \<Rightarrow>
                  (case map_of globals name of
                     Some v \<Rightarrow> (showInt v, None)
                   | None \<Rightarrow>
                       if name \<in> set Object_prototype then (''NaN'', None)
                       else (showInt 0, Some (''Undefined constant: '' @ name)))) s))"
proof -
  let ?resolve = "\<lambda>name. case map_of defines name of
                Some v \<Rightarrow> (showInt v, None)
              | None \<Rightarrow>
                  (case map_of globals name of
                     Some v \<Rightarrow> (showInt v, None)
                   | None \<Rightarrow>
                       if name \<in> set Object_prototype then (''NaN'', None)
                       else (showInt 0, Some (''Undefined constant: '' @ name)))"
  have eq: "(\<lambda>m caps errors.
        let name = capture caps 1
        in (case map_of defines name of
              Some v \<Rightarrow> Returns (showInt v, errors)
            | None \<Rightarrow>
                (case map_of globals name of
                   Some v \<Rightarrow> Returns (showInt v, errors)
                 | None \<Rightarrow>
                     if name \<in> set Object_prototype then Returns (''NaN'', errors)
                     else Returns (showInt 0, errors @ [''Undefined constant: '' @ name]))))
     = (\<lambda>m caps errors. case ?resolve (capture caps 1) of
        (rep, d) \<Rightarrow> Returns (rep, errors @ (case d of Some msg \<Rightarrow> [msg] | None \<Rightarrow> [])))"
    by (intro ext) (simp add: Let_def del: One_nat_def split: option.splits)
  show ?thesis
    unfolding replace_def substituteConstants_def eq
    using replace_substitute [of ?resolve "segments constantRegex None s" errors]
    by (simp del: One_nat_def)
qed

lemma errorDirectives_if:
  "(if length errors > 0 then errorDirectives errors else []) = errorDirectives errors"
  by (simp add: errorDirectives_def)

lemma generateGLSL_v2023_order:
  "generateGLSL_v2023 fuel env defines code prefix suffix
   = includesThenConstants fuel (symbolTable_v2023 env defines) env defines code prefix suffix"
proof (induction fuel arbitrary: code prefix suffix)
  case 0
  show ?case by simp
next
  case (Suc fuel)
  show ?case
    by (simp add: symbolTable_v2023_def replace_comments stripComments_def
          replace_constants_2023 replace_includes Suc.IH andThen_assoc errorDirectives_if
          case_prod_beta del: One_nat_def length_greater_0_conv)
qed

text \<open>The loop of \<open>unroll\<close> emits one copy for each counter value.\<close>

lemma counterValues_step:
  assumes "i < bound" and "0 < step"
  shows "counterValues i bound step = i # counterValues (i + step) bound step"
proof -
  let ?x = "bound - i - 1"
  have x: "0 \<le> ?x" using assms by simp
  have d: "0 \<le> ?x div step" using x assms by (simp add: pos_imp_zdiv_nonneg_iff)
  have e: "bound - i + step - 1 = ?x + step" by simp
  have a: "(bound - i + step - 1) div step = ?x div step + 1"
    unfolding e using assms by simp
  have b: "(bound - (i + step) + step - 1) div step = ?x div step"
    by (simp add: algebra_simps)
  have n: "nat (?x div step + 1) = Suc (nat (?x div step))" using d by simp
  show ?thesis
    unfolding counterValues_def a b n
    by (simp add: upt_conv_Cons map_Suc_upt [symmetric] algebra_simps del: upt_Suc)
qed

lemma counterValues_done:
  assumes "\<not> i < bound" and "0 < step"
  shows "counterValues i bound step = []"
proof -
  have "(bound - i + step - 1) div step \<le> (step - 1) div step"
    using assms by (intro zdiv_mono1) simp_all
  moreover have "(step - 1) div step = 0"
    using assms by (simp add: div_pos_pos_trivial)
  ultimately show ?thesis by (simp add: counterValues_def)
qed

lemma toDouble_exact:
  assumes "\<bar>n\<bar> \<le> 2 ^ 53"
  shows "toDouble n = Num n"
proof -
  have "nat \<bar>n\<bar> \<le> 2 ^ 53"
    using assms by (simp add: nat_le_iff)
  then show ?thesis
    by (simp only: toDouble_def Let_def if_True)
qed

lemma unrollCopies_counterValues:
  assumes "0 < istep" and "- (2 ^ 53) \<le> i" and "bound + istep - 1 \<le> 2 ^ 53"
  shows "unrollCopies counter loopcode (Num i) (Num bound) (Num istep)
         = Some (concat (map (inlinedCopy counter loopcode) (counterValues i bound istep)))"
  using assms
proof (induction "nat (bound - i)" arbitrary: i rule: less_induct)
  case less
  show ?case
  proof (cases "i < bound")
    case True
    have small: "\<bar>i\<bar> \<le> 2 ^ 53" "\<bar>i + istep\<bar> \<le> 2 ^ 53"
      using True less.prems by simp_all
    have "unrollCopies counter loopcode (Num (i + istep)) (Num bound) (Num istep)
          = Some (concat (map (inlinedCopy counter loopcode)
                    (counterValues (i + istep) bound istep)))"
      using True less.prems by (intro less.hyps) simp_all
    then show ?thesis
      using True less.prems small
      by (subst unrollCopies.simps)
         (simp add: toDouble_exact showNumber_def inlinedCopy_def counterValues_step)
  next
    case False
    then show ?thesis
      using less.prems by (subst unrollCopies.simps) (simp add: counterValues_done)
  qed
qed

text \<open>
  A match consumes a prefix of its input, so the segments of a search spell the text that
  was searched; a replacer that returns every match as it is gives the text back.
\<close>

lemma stripPrefix_Some: "stripPrefix w inp = Some inp' \<Longrightarrow> inp = w @ inp'"
  by (induction w inp rule: stripPrefix.induct) (auto split: if_splits)

lemma rmatch_suffix:
  "s' \<in> set (rmatch r s) \<Longrightarrow> \<exists>pre. fst (snd s) = pre @ fst (snd s')"
proof (induction r s arbitrary: s' rule: rmatch.induct)
  case (1 cl p caps)
  then show ?case by simp
next
  case (2 cl p c cs caps)
  then show ?case by (simp split: if_splits)
next
  case (3 s)
  then show ?case by simp
next
  case (4 a b s)
  from 4(3) obtain m where m: "m \<in> set (rmatch a s)" and s': "s' \<in> set (rmatch b m)"
    by (simp only: rmatch.simps set_concat set_map) blast
  from 4(1) [OF m] obtain pre1 where "fst (snd s) = pre1 @ fst (snd m)" by blast
  moreover from 4(2) [OF m s'] obtain pre2 where "fst (snd m) = pre2 @ fst (snd s')" by blast
  ultimately have "fst (snd s) = (pre1 @ pre2) @ fst (snd s')" by simp
  then show ?case by blast
next
  case (5 a b s)
  from 5(3) have "s' \<in> set (rmatch a s) \<or> s' \<in> set (rmatch b s)"
    by (simp only: rmatch.simps set_append Un_iff)
  then show ?case using 5(1) 5(2) by blast
next
  case (6 r p inp caps)
  let ?shorter = "filter (\<lambda>(p', inp', caps'). length inp' < length inp) (rmatch r (p, inp, caps))"
  from 6(3) have "s' = (p, inp, caps) \<or> (\<exists>m \<in> set ?shorter. s' \<in> set (rmatch (Star r) m))"
    by (simp only: rmatch.simps set_append set_concat set_map list.set) blast
  then show ?case
  proof
    assume "s' = (p, inp, caps)"
    then show ?thesis by simp
  next
    assume "\<exists>m \<in> set ?shorter. s' \<in> set (rmatch (Star r) m)"
    then obtain m where f: "m \<in> set ?shorter" and s': "s' \<in> set (rmatch (Star r) m)"
      by blast
    from f have m: "m \<in> set (rmatch r (p, inp, caps))" by (simp only: set_filter) blast
    from 6(1) [OF m] obtain pre1 where "fst (snd (p, inp, caps)) = pre1 @ fst (snd m)" by blast
    moreover from 6(2) [OF f s'] obtain pre2 where "fst (snd m) = pre2 @ fst (snd s')" by blast
    ultimately have "fst (snd (p, inp, caps)) = (pre1 @ pre2) @ fst (snd s')" by simp
    then show ?thesis by blast
  qed
next
  case (7 r p inp caps)
  let ?shorter = "filter (\<lambda>(p', inp', caps'). length inp' < length inp) (rmatch r (p, inp, caps))"
  from 7(3) have "s' = (p, inp, caps) \<or> (\<exists>m \<in> set ?shorter. s' \<in> set (rmatch (LazyStar r) m))"
    by (simp only: rmatch.simps set_concat set_map list.set) blast
  then show ?case
  proof
    assume "s' = (p, inp, caps)"
    then show ?thesis by simp
  next
    assume "\<exists>m \<in> set ?shorter. s' \<in> set (rmatch (LazyStar r) m)"
    then obtain m where f: "m \<in> set ?shorter" and s': "s' \<in> set (rmatch (LazyStar r) m)"
      by blast
    from f have m: "m \<in> set (rmatch r (p, inp, caps))" by (simp only: set_filter) blast
    from 7(1) [OF m] obtain pre1 where "fst (snd (p, inp, caps)) = pre1 @ fst (snd m)" by blast
    moreover from 7(2) [OF f s'] obtain pre2 where "fst (snd m) = pre2 @ fst (snd s')" by blast
    ultimately have "fst (snd (p, inp, caps)) = (pre1 @ pre2) @ fst (snd s')" by simp
    then show ?thesis by blast
  qed
next
  case (8 k r p inp caps)
  from 8(2) obtain m where m: "m \<in> set (rmatch r (p, inp, caps))"
      and s': "s' = (case m of (p', inp', caps') \<Rightarrow> (p', inp', (k, consumed inp inp') # caps'))"
    by (simp only: rmatch.simps set_map) blast
  from 8(1) [OF m] obtain pre where "fst (snd (p, inp, caps)) = pre @ fst (snd m)" by blast
  moreover have "fst (snd s') = fst (snd m)"
    unfolding s' by (cases m) simp
  ultimately show ?case by simp
next
  case (9 k p inp caps)
  show ?case
  proof (cases "map_of caps k")
    case None
    with 9 show ?thesis by simp
  next
    case (Some w)
    show ?thesis
    proof (cases "stripPrefix w inp")
      case None
      with 9 Some show ?thesis by simp
    next
      case (Some inp')
      with 9 \<open>map_of caps k = Some w\<close> have "fst (snd s') = inp'" by simp
      with stripPrefix_Some [OF Some] show ?thesis by simp
    qed
  qed
next
  case (10 p inp caps)
  then show ?case by (simp split: if_splits)
next
  case (11 p inp caps)
  then show ?case by (simp split: if_splits)
next
  case (12 p inp caps)
  then show ?case by (simp split: if_splits)
next
  case (13 p inp caps)
  then show ?case by (simp split: if_splits)
next
  case (14 p inp caps)
  then show ?case by (simp split: if_splits)
qed


lemma rfirst_suffix:
  assumes "rfirst r (p, inp, caps) = Some (p', inp', caps')"
  shows "consumed inp inp' @ inp' = inp"
proof -
  from assms have "(p', inp', caps') \<in> set (rmatch r (p, inp, caps))"
    by (simp add: rfirst_def split: list.splits)
  from rmatch_suffix [OF this] obtain pre where "inp = pre @ inp'" by auto
  then show ?thesis by simp
qed

lemma segments_text: "concat (map segmentText (segments r p inp)) = inp"
proof (induction r p inp rule: segments.induct)
  case (1 r p inp)
  show ?case
  proof (cases "rfirst r (p, inp, [])")
    case None
    show ?thesis
    proof (cases inp)
      case Nil
      with None show ?thesis by (subst segments.simps) simp
    next
      case (Cons c cs)
      with None 1(1) [OF None Cons] show ?thesis
        by (subst segments.simps) simp
    qed
  next
    case (Some s)
    obtain p' inp' caps where s: "s = (p', inp', caps)" by (cases s)
    note found = Some [unfolded s]
    show ?thesis
    proof (cases "length inp' < length inp")
      case True
      from 1(2) [OF found refl refl True] rfirst_suffix [OF found] True found show ?thesis
        by (subst segments.simps) simp
    next
      case False
      show ?thesis
      proof (cases inp)
        case Nil
        with False found show ?thesis by (subst segments.simps) simp
      next
        case (Cons c cs)
        with False found 1(3) [OF found refl refl False Cons] show ?thesis
          by (subst segments.simps) simp
      qed
    qed
  qed
qed


lemma unroll_unresolved:
  assumes "\<not> (isFiniteNumber start \<or> has defines start)
           \<or> \<not> (isFiniteNumber end' \<or> has defines end')"
  shows "unroll defines match type' counter start cmp end' step loopcode
         = (if defines = [] then Returns match else Throws ParseError)"
  using assms by (auto simp add: unroll_def Let_def)

lemma unrollCallback_unresolved:
  "unresolvedLimits defines caps \<Longrightarrow>
   unrollCallback defines m caps st = (if defines = [] then Returns (m, st) else Throws ParseError)"
  by (simp add: unrollCallback_def unresolvedLimits_def unroll_unresolved del: One_nat_def)

lemma replaceSegments_unresolved:
  assumes "\<forall>caps \<in> set (capturesOf segs). unresolvedLimits defines caps"
  shows "replaceSegments (unrollCallback defines) segs ()
         = (if defines = [] \<or> capturesOf segs = []
            then Returns (concat (map segmentText segs), ())
            else Throws ParseError)"
  using assms
proof (induction segs)
  case Nil
  then show ?case by (simp add: capturesOf_def)
next
  case (Cons seg segs)
  then have rest: "replaceSegments (unrollCallback defines) segs ()
         = (if defines = [] \<or> capturesOf segs = []
            then Returns (concat (map segmentText segs), ())
            else Throws ParseError)"
    by (simp add: capturesOf_def)
  show ?case
  proof (cases seg)
    case (Plain c)
    with rest show ?thesis by (simp add: capturesOf_def)
  next
    case (Matched m caps)
    with Cons.prems have "unresolvedLimits defines caps" by (simp add: capturesOf_def)
    with rest Matched show ?thesis
      by (simp add: capturesOf_def unrollCallback_unresolved)
  qed
qed

lemma replace_unresolved:
  assumes "\<forall>caps \<in> set (loopsFound r code). unresolvedLimits defines caps"
  shows "replace r (unrollCallback defines) code ()
         = (if defines = [] \<or> loopsFound r code = [] then Returns (code, ())
            else Throws ParseError)"
  using replaceSegments_unresolved [of "segments r None code" "defines"] assms
  by (simp add: replace_def loopsFound_def segments_text)

lemma unrollLoops_unresolved:
  assumes "\<forall>caps \<in> set (loopsFound unrollRegex0 code @ loopsFound unrollRegex1 code).
             unresolvedLimits defines caps"
  shows "unrollLoops code defines
         = (if defines = [] \<or> (loopsFound unrollRegex0 code = [] \<and> loopsFound unrollRegex1 code = [])
            then Returns code else Throws ParseError)"
proof -
  have a: "\<forall>caps \<in> set (loopsFound unrollRegex0 code). unresolvedLimits defines caps"
   and b: "\<forall>caps \<in> set (loopsFound unrollRegex1 code). unresolvedLimits defines caps"
    using assms by simp_all
  show ?thesis
  proof (cases "defines = []")
    case True
    from a b have "replace unrollRegex0 (unrollCallback []) code () = Returns (code, ())"
      and "replace unrollRegex1 (unrollCallback []) code () = Returns (code, ())"
      unfolding True by (simp_all add: replace_unresolved)
    then show ?thesis
      by (simp add: unrollLoops_def True)
  next
    case False
    then show ?thesis
      by (simp add: unrollLoops_def replace_unresolved [OF a] replace_unresolved [OF b])
  qed
qed

text \<open>The rules that evaluate the model on a concrete input.\<close>

lemmas char_eval =
  isWhiteSpace_def isWordChar_def isDigitChar_def isLowerChar_def isUpperChar_def
  charBetween_def isLineTerminator_def

lemmas regex_eval =
  ws_def OneOrMore_def LazyOneOrMore_def Optional_def commentsRegex0_def commentsRegex1_def
  includeRegex_def constantRegex_def numberOrName_def unrollHead_def unrollTail_def
  unrollRegex0_def unrollRegex1_def breakRegex_def filenameRegex_def rfirst_def
  regexFound_def capture_def segments.simps replace_def

lemmas number_eval =
  NL_def glslLines_def showInt_def showNat.simps digitChar_def digitOf_def digitsValue_def
  trim_def belowInfinity_def nonDecimalFinite_def exponentPart_def unsignedDecimalFinite_def
  isFiniteNumber_def parseInt_def toDouble_def showNumber_def

lemmas preprocessor_eval =
  char_eval regex_eval number_eval has_def generateUnprocessedGLSL_def generateConstants_def
  readfileSync_def limitValue_def unroll_def unrollCopies.simps unrollCallback_def
  unrollLoops_def errorDirectives_def Let_def exampleEnvironment_def includeOfConstant_def
  threeCopies_def


subsection \<open>The order of the stages\<close>

text \<open>
  C1 (as amended). \<open>generateGLSL\<close> applies its stages in a fixed order. In the copy of 2024
  the order is: strip the block and line comments, substitute every \<^verbatim>\<open>@NAME@\<close> with its
  value in the symbol table (recording a diagnostic for an unknown name), expand every
  \<^verbatim>\<open>@include "file"\<close> by running the whole pipeline on the file and splicing the result
  in, unroll the loops. In the copy of 2023 the includes are expanded before the constants
  are substituted; the other stages keep their places.
\<close>

theorem generateGLSL_stage_order:
  "generateGLSL fuel env defines code prefix suffix
     = constantsThenIncludes fuel (symbolTable env defines) env defines code prefix suffix
   \<and> generateGLSL_v2023 fuel env defines code prefix suffix
     = includesThenConstants fuel (symbolTable_v2023 env defines) env defines code prefix suffix"
  by (simp add: generateGLSL_order generateGLSL_v2023_order)

text \<open>
  The theorem at an include whose file name is a constant: the stages of the copy of 2024,
  run in the order of the specification, give the result of \<open>generateGLSL\<close>.
\<close>

lemma constantsThenIncludes_example:
  "constantsThenIncludes (Suc (Suc 0)) (symbolTable exampleEnvironment [(''N'', 7)])
      exampleEnvironment [(''N'', 7)] includeOfConstant None None
   = Returns (''#define N 7'' @ NL @ ''#define N 7'' @ NL @ ''seven'')"
  by (simp add: preprocessor_eval symbolTable_def stripComments_def removeMatches_def
      substituteConstants_def expandIncludes_def)

theorem generateGLSL_stage_order_witness:
  "generateGLSL (Suc (Suc 0)) exampleEnvironment [(''N'', 7)] includeOfConstant None None
   = Returns (''#define N 7'' @ NL @ ''#define N 7'' @ NL @ ''seven'')"
  using generateGLSL_stage_order [of "Suc (Suc 0)" exampleEnvironment "[(''N'', 7)]"
      includeOfConstant None None, THEN conjunct1]
  by (simp only: constantsThenIncludes_example)

text \<open>
  The claim as stated fails on the copy of 2023. There the include directive is expanded
  while its file name still reads \<^verbatim>\<open>@N@.glsl\<close>, which is not an acceptable file name, so
  the call throws; in the claimed order the name would first become \<^verbatim>\<open>7.glsl\<close> and the
  call would return.
\<close>

theorem include_before_constants_v2023:
  "generateGLSL_v2023 (Suc (Suc 0)) exampleEnvironment [(''N'', 7)] includeOfConstant None None
     = Throws FileNotFoundError
   \<and> constantsThenIncludes (Suc (Suc 0)) (symbolTable_v2023 exampleEnvironment [(''N'', 7)])
        exampleEnvironment [(''N'', 7)] includeOfConstant None None
     = Returns (''#define N 7'' @ NL @ ''#define N 7'' @ NL @ ''seven'')"
  by (simp add: preprocessor_eval symbolTable_v2023_def stripComments_def removeMatches_def
      substituteConstants_def expandIncludes_def)

subsection \<open>Running the preprocessor on its own output\<close>

lemma join_Cons: "xs \<noteq> [] \<Longrightarrow> join sep (x # xs) = x @ sep @ join sep xs"
  by (cases xs) simp_all

text \<open>
  C2 (as amended). On a text that is fully resolved once the prefix, the \<^verbatim>\<open>#define\<close> lines
  of the defines and the suffix are put around it (no comment, no \<^verbatim>\<open>@NAME@\<close>, no
  \<^verbatim>\<open>@include\<close>, no \<^verbatim>\<open>@unroll\<close> loop), \<open>generateGLSL\<close> returns exactly that assembled text.
  With no defines, no prefix and no suffix this is the text itself, unchanged; every
  define adds one \<^verbatim>\<open>#define\<close> line in front of it.
\<close>

theorem generateGLSL_on_resolved_text:
  assumes "glInitialized env"
      and "fullyResolved (generateUnprocessedGLSL defines code prefix suffix)"
  shows "generateGLSL (Suc fuel) env defines code prefix suffix
         = Returns (generateUnprocessedGLSL defines code prefix suffix)
       \<and> generateUnprocessedGLSL [] code None None = code
       \<and> generateUnprocessedGLSL ((key, v) # defines) code None None
         = ''#define '' @ key @ '' '' @ showInt v @ NL
           @ generateUnprocessedGLSL defines code None None"
proof (intro conjI)
  show "generateGLSL (Suc fuel) env defines code prefix suffix
        = Returns (generateUnprocessedGLSL defines code prefix suffix)"
    using assms
    by (simp add: fullyResolved_def generateConstants_def replace_no_match unrollLoops_no_match
        errorDirectives_def Let_def)
  show "generateUnprocessedGLSL [] code None None = code"
    by (simp add: generateUnprocessedGLSL_def)
  show "generateUnprocessedGLSL ((key, v) # defines) code None None
        = ''#define '' @ key @ '' '' @ showInt v @ NL
          @ generateUnprocessedGLSL defines code None None"
    by (simp add: generateUnprocessedGLSL_def join_Cons)
qed

lemma resolved_example: "fullyResolved ''x = 1;''"
  by (simp add: fullyResolved_def preprocessor_eval)

theorem generateGLSL_on_resolved_text_witness:
  "glInitialized exampleEnvironment
   \<and> fullyResolved (generateUnprocessedGLSL [] ''x = 1;'' None None)
   \<and> generateGLSL (Suc 0) exampleEnvironment [] ''x = 1;'' None None = Returns ''x = 1;''"
  using generateGLSL_on_resolved_text [of exampleEnvironment "[]" "''x = 1;''" None None 0]
        resolved_example
  by (simp add: exampleEnvironment_def generateUnprocessedGLSL_def)

text \<open>
  The claim as stated fails for a table of defines that is not empty: the output of a
  run is fully resolved, and a second run on it with the same defines puts the
  \<^verbatim>\<open>#define\<close> line in front once more.
\<close>

lemma resolved_output_example: "fullyResolved (''#define N 1'' @ NL @ ''x'')"
  by (simp add: fullyResolved_def preprocessor_eval)

theorem rerun_with_defines_adds_lines:
  "generateGLSL (Suc 0) exampleEnvironment [(''N'', 1)] ''x'' None None
     = Returns (''#define N 1'' @ NL @ ''x'')
   \<and> fullyResolved (''#define N 1'' @ NL @ ''x'')
   \<and> generateGLSL (Suc 0) exampleEnvironment [(''N'', 1)] (''#define N 1'' @ NL @ ''x'') None None
     = Returns (''#define N 1'' @ NL @ ''#define N 1'' @ NL @ ''x'')"
  using resolved_output_example by (simp add: preprocessor_eval)

subsection \<open>Unrolling\<close>

text \<open>
  The examples of the specification, and a loop with a step, a limit from the defines and
  a \<^verbatim>\<open>break\<close>, run through \<open>unrollLoops\<close>.
\<close>

lemma unrollLoops_less_example:
  "unrollLoops ''@unroll for(int i=0;i<3;i++){X(i);}'' [] = Returns threeCopies"
  by (simp add: preprocessor_eval)

lemma unrollLoops_less_eq_example:
  "unrollLoops ''@unroll for(int i=0;i<=2;i++){X(i);}'' [] = Returns threeCopies"
  by (simp add: preprocessor_eval)

lemma unrollLoops_step_example:
  "unrollLoops ''@unroll for(int i=0;i<=N;i+=2){break;}'' [(''N'', 4)]
   = Returns (glslLines [''switch(1) { default:'', ''int i;'',
                         ''{'', ''i = 0;'', ''break;'', ''}'',
                         ''{'', ''i = 2;'', ''break;'', ''}'',
                         ''{'', ''i = 4;'', ''break;'', ''}'',
                         ''}''])"
  by (simp add: preprocessor_eval)

text \<open>
  \<open>unroll\<close> on a loop whose limits are resolved to integers: where the arithmetic on doubles
  is exact it emits the copies, and where the assertion fails it throws.
\<close>

lemma unroll_in_range:
  assumes "isFiniteNumber start \<or> has defines start"
      and "isFiniteNumber end' \<or> has defines end'"
      and "limitValue defines start = Num istart"
      and "limitValue defines end' = Num iend"
      and "(if length step = 0 then Num 1 else parseInt step) = Num istep"
      and "istart \<le> iend" and "0 < istep" and "- (2 ^ 53) \<le> istart" and "iend + istep \<le> 2 ^ 53"
  shows "unroll defines match type' counter start cmp end' step loopcode
         = Returns ((if regexFound breakRegex loopcode then ''switch(1) { default:'' @ NL
                     else ''{'' @ NL)
                    @ type' @ '' '' @ counter @ '';'' @ NL
                    @ concat (map (inlinedCopy counter loopcode)
                        (counterValues istart (if cmp = ''<='' then iend + 1 else iend) istep))
                    @ ''}'' @ NL)"
proof (cases "cmp = ''<=''")
  case True
  have "\<bar>iend + 1\<bar> \<le> 2 ^ 53"
    using assms(6-9) by (simp add: abs_le_iff)
  then have bound: "toDouble (iend + 1) = Num (iend + 1)"
    by (rule toDouble_exact)
  have copies: "unrollCopies counter loopcode (Num istart) (Num (iend + 1)) (Num istep)
        = Some (concat (map (inlinedCopy counter loopcode)
                  (counterValues istart (iend + 1) istep)))"
    using assms(7-9) by (intro unrollCopies_counterValues) simp_all
  show ?thesis
    using assms(1-7) True by (simp add: unroll_def Let_def bound copies)
next
  case False
  have "\<bar>iend\<bar> \<le> 2 ^ 53"
    using assms(6-9) by (simp add: abs_le_iff)
  then have bound: "toDouble iend = Num iend"
    by (rule toDouble_exact)
  have copies: "unrollCopies counter loopcode (Num istart) (Num iend) (Num istep)
        = Some (concat (map (inlinedCopy counter loopcode) (counterValues istart iend istep)))"
    using assms(7-9) by (intro unrollCopies_counterValues) simp_all
  show ?thesis
    using assms(1-7) False by (simp add: unroll_def Let_def bound copies)
qed

lemma unroll_assertion:
  assumes "isFiniteNumber start \<or> has defines start"
      and "isFiniteNumber end' \<or> has defines end'"
      and "limitValue defines start = Num istart"
      and "limitValue defines end' = Num iend"
      and "(if length step = 0 then Num 1 else parseInt step) = Num istep"
      and "iend < istart \<or> istep \<le> 0"
  shows "unroll defines match type' counter start cmp end' step loopcode = Throws AssertionError"
  using assms unfolding unroll_def Let_def by auto

text \<open>
  C3 (as amended). Let both limits of the loop be resolved, to the integers START and END,
  and the step be the integer STEP. If \<open>START \<le> END\<close>, STEP is positive, and the numbers
  stay in the range where a double holds every integer (\<open>-2^53 \<le> START\<close> and
  \<open>END + STEP \<le> 2^53\<close>), \<open>unroll\<close> emits one inlined copy of the body for each value of the
  counter from START up to END (exclusive for \<^verbatim>\<open><\<close>, inclusive for \<^verbatim>\<open><=\<close>) stepping by
  STEP, in that order, each in a scope of its own that assigns the counter, all inside a
  scope that declares the counter; that outer scope is \<^verbatim>\<open>switch(1) { default:\<close> when the
  body contains a \<^verbatim>\<open>break\<close>. If \<open>START > END\<close> or STEP is not positive, \<open>unroll\<close> throws an
  assertion error. The loops \<^verbatim>\<open>@unroll for(int i=0;i<3;i++){X(i);}\<close> and the one with
  \<^verbatim>\<open>i<=2\<close> both give exactly three copies, with the counter 0, 1, 2; the loop
  \<^verbatim>\<open>@unroll for(int i=0;i<=N;i+=2){break;}\<close> with \<open>N = 4\<close> gives the copies for 0, 2, 4
  inside a \<^verbatim>\<open>switch\<close>.
\<close>

theorem unroll_emits_counterValues:
  assumes "isFiniteNumber start \<or> has defines start"
      and "isFiniteNumber end' \<or> has defines end'"
      and "limitValue defines start = Num istart"
      and "limitValue defines end' = Num iend"
      and "(if length step = 0 then Num 1 else parseInt step) = Num istep"
  shows "(istart \<le> iend \<and> 0 < istep \<and> - (2 ^ 53) \<le> istart \<and> iend + istep \<le> 2 ^ 53 \<longrightarrow>
          unroll defines match type' counter start cmp end' step loopcode
          = Returns ((if regexFound breakRegex loopcode then ''switch(1) { default:'' @ NL
                      else ''{'' @ NL)
                     @ type' @ '' '' @ counter @ '';'' @ NL
                     @ concat (map (inlinedCopy counter loopcode)
                         (counterValues istart (if cmp = ''<='' then iend + 1 else iend) istep))
                     @ ''}'' @ NL))
       \<and> (iend < istart \<or> istep \<le> 0 \<longrightarrow>
          unroll defines match type' counter start cmp end' step loopcode
          = Throws AssertionError)
       \<and> unrollLoops ''@unroll for(int i=0;i<3;i++){X(i);}'' [] = Returns threeCopies
       \<and> unrollLoops ''@unroll for(int i=0;i<=2;i++){X(i);}'' [] = Returns threeCopies
       \<and> unrollLoops ''@unroll for(int i=0;i<=N;i+=2){break;}'' [(''N'', 4)]
         = Returns (glslLines [''switch(1) { default:'', ''int i;'',
                               ''{'', ''i = 0;'', ''break;'', ''}'',
                               ''{'', ''i = 2;'', ''break;'', ''}'',
                               ''{'', ''i = 4;'', ''break;'', ''}'',
                               ''}''])"
proof (intro conjI impI)
  assume "istart \<le> iend \<and> 0 < istep \<and> - (2 ^ 53) \<le> istart \<and> iend + istep \<le> 2 ^ 53"
  then show "unroll defines match type' counter start cmp end' step loopcode
          = Returns ((if regexFound breakRegex loopcode then ''switch(1) { default:'' @ NL
                      else ''{'' @ NL)
                     @ type' @ '' '' @ counter @ '';'' @ NL
                     @ concat (map (inlinedCopy counter loopcode)
                         (counterValues istart (if cmp = ''<='' then iend + 1 else iend) istep))
                     @ ''}'' @ NL)"
    using assms by (intro unroll_in_range) simp_all
next
  assume "iend < istart \<or> istep \<le> 0"
  then show "unroll defines match type' counter start cmp end' step loopcode
             = Throws AssertionError"
    using assms by (intro unroll_assertion)
qed (rule unrollLoops_less_example unrollLoops_less_eq_example unrollLoops_step_example)+

lemma counterValues_example: "counterValues 0 5 2 = [0, 2, 4]"
  by (simp add: counterValues_def upt_rec [of _ "Suc _"] upt_rec [of _ "numeral _"])

lemma unroll_hyps_example:
  "isFiniteNumber ''0'' \<and> has [(''N'', 4)] ''N''
   \<and> limitValue [(''N'', 4)] ''0'' = Num 0 \<and> limitValue [(''N'', 4)] ''N'' = Num 4
   \<and> parseInt ''2'' = Num 2 \<and> regexFound breakRegex ''break;''"
  by (simp add: preprocessor_eval)

text \<open>
  The theorem at a loop with a limit from the defines, a step of 2 and a \<^verbatim>\<open>break\<close>.
\<close>

theorem unroll_emits_counterValues_witness:
  "(isFiniteNumber ''0'' \<or> has [(''N'', 4)] ''0'')
   \<and> (isFiniteNumber ''N'' \<or> has [(''N'', 4)] ''N'')
   \<and> limitValue [(''N'', 4)] ''0'' = Num 0 \<and> limitValue [(''N'', 4)] ''N'' = Num 4
   \<and> (if length ''2'' = 0 then Num 1 else parseInt ''2'') = Num 2
   \<and> (0::int) \<le> 4 \<and> (0::int) < 2 \<and> - (2 ^ 53) \<le> (0::int) \<and> (4::int) + 2 \<le> 2 ^ 53
   \<and> unroll [(''N'', 4)] ''@unroll for(int i=0;i<=N;i+=2){break;}'' ''int'' ''i'' ''0'' ''<='' ''N''
        ''2'' ''break;''
     = Returns (glslLines [''switch(1) { default:'', ''int i;'',
                           ''{'', ''i = 0;'', ''break;'', ''}'',
                           ''{'', ''i = 2;'', ''break;'', ''}'',
                           ''{'', ''i = 4;'', ''break;'', ''}'',
                           ''}''])"
  using unroll_emits_counterValues [of "''0''" "[(''N'', 4)]" "''N''" 0 4 "''2''" 2
      "''@unroll for(int i=0;i<=N;i+=2){break;}''" "''int''" "''i''" "''<=''" "''break;''",
      THEN conjunct1]
    unroll_hyps_example counterValues_example
  by (simp add: inlinedCopy_def glslLines_def NL_def showInt_def showNat.simps digitChar_def)

text \<open>
  The claim as stated fails in two places. When START is greater than END the source
  asserts \<^verbatim>\<open>istart <= iend\<close>, so the loop that would have no copy throws instead. And
  outside the range of the exact integers the count is another: with START and END both
  \<open>2^53\<close> and \<^verbatim>\<open><=\<close>, the sum \<^verbatim>\<open>iend + 1\<close> is rounded back to \<open>2^53\<close> and no copy is emitted,
  where the claim has one.
\<close>

theorem unroll_copies_not_as_claimed:
  "unrollLoops ''@unroll for(int i=5;i<3;i++){X(i);}'' [] = Throws AssertionError
   \<and> unrollLoops ''@unroll for(int i=9007199254740992;i<=9007199254740992;i++){X(i);}'' []
     = Returns (glslLines [''{'', ''int i;'', ''}''])"
  by (simp add: preprocessor_eval bitLength.simps)

text \<open>
  C4 (as amended). The limits of a loop are resolved against the defines of the call
  alone, not against the global constants. When the START or the END of a loop is neither
  a finite number nor a name of the defines, \<open>unroll\<close> returns the text of the loop as it
  is if the defines are empty, and throws a parse error if they are not. So does
  \<open>unrollLoops\<close> on a text all of whose loops have such a limit: with empty defines, or with
  no loop in the text, it returns the text unchanged, and otherwise it throws a parse
  error.
\<close>

theorem unroll_unresolved_bound:
  "(\<not> (isFiniteNumber start \<or> has defines start) \<or> \<not> (isFiniteNumber end' \<or> has defines end')
      \<longrightarrow> unroll defines match type' counter start cmp end' step loopcode
          = (if defines = [] then Returns match else Throws ParseError))
   \<and> ((\<forall>caps \<in> set (loopsFound unrollRegex0 code @ loopsFound unrollRegex1 code).
          unresolvedLimits defines caps)
      \<longrightarrow> unrollLoops code defines
          = (if defines = []
                \<or> (loopsFound unrollRegex0 code = [] \<and> loopsFound unrollRegex1 code = [])
             then Returns code else Throws ParseError))"
  using unroll_unresolved [of start "defines" end' match type' counter cmp step loopcode]
    unrollLoops_unresolved [of code "defines"]
  by blast

lemma unresolved_example: "\<not> isFiniteNumber ''N'' \<and> \<not> has [] ''N'' \<and> \<not> has [(''M'', 4)] ''N''"
  by (simp add: preprocessor_eval)

lemma loopsFound_example:
  "loopsFound unrollRegex0 ''@unroll for(int i=0;i<N;i++){X(i);}''
     = [[(7, ''X(i);''), (6, []), (5, ''N''), (4, ''<''), (3, ''0''), (2, ''i''), (1, ''int'')]]
   \<and> loopsFound unrollRegex1 ''@unroll for(int i=0;i<N;i++){X(i);}'' = []"
  by (simp add: loopsFound_def capturesOf_def preprocessor_eval)

text \<open>
  The theorem at the loop \<^verbatim>\<open>@unroll for(int i=0;i<N;i++){X(i);}\<close>, with empty defines and
  with defines that have no \<open>N\<close>.
\<close>

theorem unroll_unresolved_bound_witness:
  "\<not> isFiniteNumber ''N'' \<and> \<not> has [] ''N'' \<and> \<not> has [(''M'', 4)] ''N''
   \<and> unroll [] ''@unroll for(int i=0;i<N;i++){X(i);}'' ''int'' ''i'' ''0'' ''<'' ''N'' [] ''X(i);''
     = Returns ''@unroll for(int i=0;i<N;i++){X(i);}''
   \<and> unroll [(''M'', 4)] ''@unroll for(int i=0;i<N;i++){X(i);}'' ''int'' ''i'' ''0'' ''<'' ''N'' []
        ''X(i);''
     = Throws ParseError
   \<and> loopsFound unrollRegex0 ''@unroll for(int i=0;i<N;i++){X(i);}'' \<noteq> []
   \<and> unrollLoops ''@unroll for(int i=0;i<N;i++){X(i);}'' []
     = Returns ''@unroll for(int i=0;i<N;i++){X(i);}''
   \<and> unrollLoops ''@unroll for(int i=0;i<N;i++){X(i);}'' [(''M'', 4)] = Throws ParseError"
  using unroll_unresolved_bound [of "''0''" "[]" "''N''"
      "''@unroll for(int i=0;i<N;i++){X(i);}''" "''int''" "''i''" "''<''" "[]" "''X(i);''"
      "''@unroll for(int i=0;i<N;i++){X(i);}''"]
    unroll_unresolved_bound [of "''0''" "[(''M'', 4)]" "''N''"
      "''@unroll for(int i=0;i<N;i++){X(i);}''" "''int''" "''i''" "''<''" "[]" "''X(i);''"
      "''@unroll for(int i=0;i<N;i++){X(i);}''"]
    unresolved_example loopsFound_example
  by (simp add: unresolvedLimits_def capture_def)

text \<open>
  The claim as stated, with the symbol table of the preprocessor (the defines and the
  global constants), fails. In the example environment the symbol table of a call with
  empty defines is not empty, it has the global constant \<open>G\<close>; yet a loop up to the unknown
  \<open>N\<close> is left untouched. And \<open>G\<close>, an entry of the symbol table, is no limit for a loop: the
  loop up to \<open>G\<close> is left untouched with empty defines and is a parse error with the
  defines \<open>{A: 0}\<close>.
\<close>

theorem global_constants_are_no_loop_limits:
  "generateConstants exampleEnvironment [] = Returns [(''G'', 5)]
   \<and> generateGLSL (Suc 0) exampleEnvironment [] ''@unroll for(int i=0;i<N;i++){X(i);}'' None None
     = Returns ''@unroll for(int i=0;i<N;i++){X(i);}''
   \<and> generateGLSL (Suc 0) exampleEnvironment [] ''@unroll for(int i=0;i<G;i++){X(i);}'' None None
     = Returns ''@unroll for(int i=0;i<G;i++){X(i);}''
   \<and> generateGLSL (Suc 0) exampleEnvironment [(''A'', 0)] ''@unroll for(int i=0;i<G;i++){X(i);}''
        None None
     = Throws ParseError"
  by (simp add: preprocessor_eval)

end
